theory Spec2Isabelle
  imports Main "HOL-Library.Word"
begin

section \<open>Cluster topology: SystemInfo\<close>

text \<open>
  The embedding follows \<^verbatim>\<open>platform/consensus/execution/system_info.{h,cpp}\<close>.
  Node and shard identifiers are \<^verbatim>\<open>uint32_t\<close>, \<^verbatim>\<open>shard_count_\<close> is a
  \<^verbatim>\<open>size_t\<close> (64 bits), the three \<^verbatim>\<open>std::unordered_map\<close> members are partial
  maps and a \<^verbatim>\<open>std::vector\<close> is a list whose \<^verbatim>\<open>size()\<close> is its length.
  Member names lose their trailing underscore (\<^verbatim>\<open>replicas_\<close> is \<open>replicas\<close>).
\<close>

text \<open>
  Modelled from the spec: the \<^verbatim>\<open>ReplicaInfo\<close> message. Its protobuf declaration is
  not part of the sources; the data model gives \<^verbatim>\<open>(id: uint32, ip: string, port: uint16)\<close>.
  The accessor \<^verbatim>\<open>id()\<close> is named \<open>replica_id\<close> here.
\<close>

record ReplicaInfo =
  replica_id :: "32 word"
  ip :: string
  port :: "16 word"

record SystemInfo =
  replicas :: "ReplicaInfo list"
  primary_id :: "32 word"
  view :: "64 word"
  shard_count :: "64 word"
  node_to_shard :: "32 word \<rightharpoonup> 32 word"
  shard_to_nodes :: "32 word \<rightharpoonup> 32 word list"
  shard_primaries :: "32 word \<rightharpoonup> 32 word"

definition SIZE_MAX :: nat where
  "SIZE_MAX = 2 ^ 64 - 1"

definition UINT32_MAX :: "32 word" where
  "UINT32_MAX = 0xFFFFFFFF"

definition UINT_MAX :: "32 word" where
  "UINT_MAX = 0xFFFFFFFF"

definition GetPrimaryId :: "SystemInfo \<Rightarrow> 32 word" where
  "GetPrimaryId s = primary_id s"

definition SetPrimary :: "32 word \<Rightarrow> SystemInfo \<Rightarrow> SystemInfo" where
  "SetPrimary i s = s\<lparr>primary_id := i\<rparr>"

definition GetCurrentView :: "SystemInfo \<Rightarrow> 64 word" where
  "GetCurrentView s = view s"

definition SetCurrentView :: "64 word \<Rightarrow> SystemInfo \<Rightarrow> SystemInfo" where
  "SetCurrentView v s = s\<lparr>view := v\<rparr>"

definition GetReplicas :: "SystemInfo \<Rightarrow> ReplicaInfo list" where
  "GetReplicas s = replicas s"

definition SetReplicas :: "ReplicaInfo list \<Rightarrow> SystemInfo \<Rightarrow> SystemInfo" where
  "SetReplicas rs s = s\<lparr>replicas := rs\<rparr>"

definition GetShardCount :: "SystemInfo \<Rightarrow> 64 word" where
  "GetShardCount s = shard_count s"

text \<open>\<^verbatim>\<open>it != end() ? it->second.size() : 0\<close>\<close>

definition GetShardSize :: "SystemInfo \<Rightarrow> 32 word \<Rightarrow> nat" where
  "GetShardSize s shard_id =
     (case shard_to_nodes s shard_id of Some v \<Rightarrow> length v | None \<Rightarrow> 0)"

definition GetNodesInShard :: "SystemInfo \<Rightarrow> 32 word \<Rightarrow> 32 word list" where
  "GetNodesInShard s shard_id =
     (case shard_to_nodes s shard_id of Some v \<Rightarrow> v | None \<Rightarrow> [])"

definition GetShardOfNode :: "SystemInfo \<Rightarrow> 32 word \<Rightarrow> 32 word" where
  "GetShardOfNode s node_id =
     (case node_to_shard s node_id of Some sh \<Rightarrow> sh | None \<Rightarrow> UINT32_MAX)"

definition GetPrimaryOfShard :: "SystemInfo \<Rightarrow> 32 word \<Rightarrow> 32 word" where
  "GetPrimaryOfShard s shard_id =
     (case shard_primaries s shard_id of Some p \<Rightarrow> p | None \<Rightarrow> UINT_MAX)"

text \<open>\<^verbatim>\<open>SetShardCount\<close> has no guard: it stores the count and clears the three maps.\<close>

definition SetShardCount :: "64 word \<Rightarrow> SystemInfo \<Rightarrow> SystemInfo" where
  "SetShardCount count s =
     s\<lparr>shard_count := count,
       node_to_shard := Map.empty,
       shard_to_nodes := Map.empty,
       shard_primaries := Map.empty\<rparr>"

text \<open>
  \<^verbatim>\<open>operator[]\<close> of \<^verbatim>\<open>std::unordered_map\<close> on a vector-valued map: a missing key is
  inserted with an empty vector. The result is the vector read and the map afterwards.
\<close>

definition subscript :: "('k \<rightharpoonup> 'v list) \<Rightarrow> 'k \<Rightarrow> 'v list \<times> ('k \<rightharpoonup> 'v list)" where
  "subscript m k = (case m k of None \<Rightarrow> ([], m(k \<mapsto> [])) | Some v \<Rightarrow> (v, m))"

text \<open>
  The search loop of \<^verbatim>\<open>AddReplicaToShard\<close>:
  \<^verbatim>\<open>for (unsigned int i = 0; i < shard_count_; ++i)\<close>. The counter is 32 bits wide and
  is widened for the comparison with the 64-bit count, so \<open>i + 1\<close> wraps at \<open>2^32\<close>
  and the loop does not end when the count exceeds the counter's range: the value
  \<open>None\<close> stands for a call that does not return.
\<close>

partial_function (option) AddReplicaToShard_loop ::
  "64 word \<Rightarrow> 32 word \<Rightarrow> 64 word \<Rightarrow> nat \<Rightarrow> (32 word \<rightharpoonup> 32 word list)
     \<Rightarrow> (64 word \<times> nat \<times> (32 word \<rightharpoonup> 32 word list)) option" where
  "AddReplicaToShard_loop cnt i target min_size m =
     (if ucast i < cnt then
        (case subscript m i of (v, m') \<Rightarrow>
           if length v < min_size
           then AddReplicaToShard_loop cnt (i + 1) (ucast i) (length v) m'
           else AddReplicaToShard_loop cnt (i + 1) target min_size m')
      else Some (target, min_size, m))"

definition AddReplicaToShard :: "ReplicaInfo \<Rightarrow> SystemInfo \<Rightarrow> SystemInfo option" where
  "AddReplicaToShard replica s =
     (if shard_count s = 0 then Some s
      else
        (case AddReplicaToShard_loop (shard_count s) 0 0 SIZE_MAX (shard_to_nodes s) of
           None \<Rightarrow> None
         | Some (target, min_size, m) \<Rightarrow>
             (case subscript m (ucast target) of (v, m') \<Rightarrow>
                Some (s\<lparr>replicas := replicas s @ [replica],
                        node_to_shard := (node_to_shard s)(replica_id replica \<mapsto> ucast target),
                        shard_to_nodes := m'(ucast target \<mapsto> v @ [replica_id replica]),
                        shard_primaries :=
                          (if shard_primaries s (ucast target) = None
                           then (shard_primaries s)(ucast target \<mapsto> replica_id replica)
                           else shard_primaries s)\<rparr>))))"

definition AddReplica :: "ReplicaInfo \<Rightarrow> SystemInfo \<Rightarrow> SystemInfo option" where
  "AddReplica replica s =
     (if replica_id replica = 0 \<or> ip replica = [] \<or> port replica = 0 then Some s
      else if replica_id replica \<in> set (map replica_id (replicas s)) then Some s
      else AddReplicaToShard replica s)"

subsection \<open>Vocabulary for the topology properties\<close>

text \<open>
  What \<open>GetShardSize\<close> and \<open>GetNodesInShard\<close> read, stated on the bare map so that
  the loop over \<^verbatim>\<open>shard_to_nodes_\<close> can be described before it is stored back.
\<close>

definition vec_size :: "(32 word \<rightharpoonup> 32 word list) \<Rightarrow> 32 word \<Rightarrow> nat" where
  "vec_size m k = (case m k of Some v \<Rightarrow> length v | None \<Rightarrow> 0)"

text \<open>
  The map after \<^verbatim>\<open>operator[]\<close> has been applied to every shard id in \<open>[lo, hi)\<close>:
  missing keys in the range now hold an empty vector.
\<close>

definition touched :: "(32 word \<rightharpoonup> 32 word list) \<Rightarrow> nat \<Rightarrow> nat \<Rightarrow> (32 word \<rightharpoonup> 32 word list)" where
  "touched m lo hi = (\<lambda>k. if lo \<le> unat k \<and> unat k < hi \<and> m k = None then Some [] else m k)"

text \<open>
  \<open>first_min m lo hi k\<close>: among the shard ids in \<open>[lo, hi)\<close>, \<open>k\<close> has the fewest
  members, and every smaller id in the range has strictly more (ties go to the smallest id).
\<close>

definition first_min :: "(32 word \<rightharpoonup> 32 word list) \<Rightarrow> nat \<Rightarrow> nat \<Rightarrow> 32 word \<Rightarrow> bool" where
  "first_min m lo hi k \<longleftrightarrow>
     lo \<le> unat k \<and> unat k < hi \<and>
     (\<forall>j. lo \<le> unat j \<and> unat j < hi \<longrightarrow> vec_size m k \<le> vec_size m j) \<and>
     (\<forall>j. lo \<le> unat j \<and> unat j < unat k \<longrightarrow> vec_size m k < vec_size m j)"

definition nodes_of :: "(32 word \<rightharpoonup> 32 word list) \<Rightarrow> 32 word \<Rightarrow> 32 word list" where
  "nodes_of m k = (case m k of Some v \<Rightarrow> v | None \<Rightarrow> [])"

text \<open>The state that \<open>AddReplicaToShard\<close> stores when the search loop picked shard \<open>k\<close>.\<close>

definition assign :: "ReplicaInfo \<Rightarrow> 32 word \<Rightarrow> SystemInfo \<Rightarrow> SystemInfo" where
  "assign r k s =
     s\<lparr>replicas := replicas s @ [r],
       node_to_shard := (node_to_shard s)(replica_id r \<mapsto> k),
       shard_to_nodes := (touched (shard_to_nodes s) 0 (unat (shard_count s)))
                           (k \<mapsto> nodes_of (shard_to_nodes s) k @ [replica_id r]),
       shard_primaries := (if shard_primaries s k = None
                           then (shard_primaries s)(k \<mapsto> replica_id r)
                           else shard_primaries s)\<rparr>"

text \<open>
  Histories of mutating calls. A call that does not return ends the history with \<open>None\<close>.
\<close>

datatype call = Call_SetShardCount "64 word" | Call_AddReplica ReplicaInfo

fun run_calls :: "call list \<Rightarrow> SystemInfo \<Rightarrow> SystemInfo option" where
  "run_calls [] s = Some s"
| "run_calls (Call_SetShardCount c # cs) s = run_calls cs (SetShardCount c s)"
| "run_calls (Call_AddReplica r # cs) s =
     (case AddReplica r s of None \<Rightarrow> None | Some s' \<Rightarrow> run_calls cs s')"

text \<open>
  A freshly constructed \<^verbatim>\<open>SystemInfo\<close>: both constructors leave the three shard maps
  empty (the roster and the shard count may hold anything).
\<close>

definition no_assignment :: "SystemInfo \<Rightarrow> bool" where
  "no_assignment s \<longleftrightarrow>
     node_to_shard s = Map.empty \<and> shard_to_nodes s = Map.empty \<and> shard_primaries s = Map.empty"

text \<open>
  Invariants of the assignment: no shard lists more nodes than there are distinct registered
  ids; shard sizes are within one of each other; a recorded coordinator is a member of its
  shard and every non-empty shard has one.
\<close>

definition bounded_sizes :: "SystemInfo \<Rightarrow> bool" where
  "bounded_sizes s \<longleftrightarrow> (\<forall>k. vec_size (shard_to_nodes s) k \<le> card (replica_id ` set (replicas s)))"

definition balanced :: "SystemInfo \<Rightarrow> bool" where
  "balanced s \<longleftrightarrow> (\<forall>a b. unat a < unat (shard_count s) \<and> unat b < unat (shard_count s)
      \<longrightarrow> vec_size (shard_to_nodes s) a \<le> vec_size (shard_to_nodes s) b + 1)"

definition coordinators_ok :: "SystemInfo \<Rightarrow> bool" where
  "coordinators_ok s \<longleftrightarrow>
     (\<forall>k p. shard_primaries s k = Some p \<longrightarrow> p \<in> set (nodes_of (shard_to_nodes s) k)) \<and>
     (\<forall>k. nodes_of (shard_to_nodes s) k \<noteq> [] \<longrightarrow> shard_primaries s k \<noteq> None)"

text \<open>Concrete rosters for the worked examples.\<close>

definition replica_n :: "32 word \<Rightarrow> ReplicaInfo" where
  "replica_n n = \<lparr>replica_id = n, ip = ''10.0.0.1'', port = 10000\<rparr>"

definition fresh_info :: "64 word \<Rightarrow> SystemInfo" where
  "fresh_info S = \<lparr>replicas = [], primary_id = 1, view = 1, shard_count = S,
     node_to_shard = Map.empty, shard_to_nodes = Map.empty, shard_primaries = Map.empty\<rparr>"

text \<open>
  \<open>roster S n\<close> is the state after registering replicas \<open>1..n\<close>, in order, over
  \<open>S\<close> shards, with replica 1 as global primary; \<open>resharded\<close> is the state after
  \<open>resharding_history\<close>, which sets the shard count after a first registration.
\<close>

definition roster :: "64 word \<Rightarrow> nat \<Rightarrow> SystemInfo" where
  "roster S n =
     (case run_calls (map (\<lambda>i. Call_AddReplica (replica_n (of_nat i))) [1..<Suc n]) (fresh_info S) of
        Some s \<Rightarrow> s
      | None \<Rightarrow> fresh_info S)"

definition resharding_history :: "call list" where
  "resharding_history =
     [Call_AddReplica (replica_n 1), Call_SetShardCount 2, Call_AddReplica (replica_n 2),
      Call_AddReplica (replica_n 3), Call_AddReplica (replica_n 4)]"

definition resharded :: SystemInfo where
  "resharded =
     (case run_calls resharding_history (fresh_info 7) of Some s \<Rightarrow> s | None \<Rightarrow> fresh_info 7)"

section \<open>Transport: ReplicaCommunicator\<close>






section \<open>Replication: Commitment\<close>

text \<open>
  From \<^verbatim>\<open>platform/consensus/ordering/pbft/commitment.cpp\<close>. The message manager, the
  duplicate manager, the request message and the helpers of \<^verbatim>\<open>transaction_utils.h\<close>
  are not part of the sources. The request and the duplicate manager are modelled from
  the spec; the message manager is a parameter.
\<close>

text \<open>
  Modelled from the spec: the \<^verbatim>\<open>Request\<close> message, with the fields of the data model
  (\<^verbatim>\<open>type, seq, view, sender_id, primary_id, proxy_id, hash, data, data_signature,
  is_recovery\<close>) and the \<^verbatim>\<open>ret\<close> field that \<^verbatim>\<open>ProcessNewRequest\<close> sets.
  \<open>TYPE_NONE\<close> is the type of a default-constructed message.
\<close>

datatype Request_Type =
  TYPE_NONE | TYPE_NEW_REQUEST | TYPE_PRE_PREPARE | TYPE_PREPARE | TYPE_COMMIT | TYPE_RESPONSE

record SignatureInfo =
  signature :: string

record Request =
  type :: Request_Type
  seq :: "64 word"
  current_view :: "64 word"
  sender_id :: "32 word"
  primary_id :: "32 word"
  proxy_id :: "32 word"
  hash :: string
  data :: string
  data_signature :: SignatureInfo
  is_recovery :: bool
  ret :: int

definition empty_SignatureInfo :: SignatureInfo where
  "empty_SignatureInfo = \<lparr>signature = []\<rparr>"

definition default_Request :: Request where
  "default_Request =
     \<lparr>type = TYPE_NONE, seq = 0, current_view = 0, sender_id = 0, primary_id = 0, proxy_id = 0,
      hash = [], data = [], data_signature = empty_SignatureInfo, is_recovery = False, ret = 0\<rparr>"

text \<open>\<^verbatim>\<open>Context\<close> carries the signature of the incoming message; the pointer may be null.\<close>

record Context =
  ctx_signature :: SignatureInfo

text \<open>
  The test \<^verbatim>\<open>context == nullptr || context->signature.signature().empty()\<close>, negated.
\<close>

definition has_signature :: "Context option \<Rightarrow> bool" where
  "has_signature context =
     (case context of None \<Rightarrow> False | Some ctx \<Rightarrow> signature (ctx_signature ctx) \<noteq> [])"

text \<open>
  Modelled from the spec: the phases of a slot (\<^verbatim>\<open>TransactionStatue\<close>) and the result of
  \<^verbatim>\<open>AddConsensusMsg\<close> (\<^verbatim>\<open>CollectorResultCode\<close>).
\<close>

datatype TransactionStatue = IDLE | READY_PREPARE | READY_COMMIT | READY_EXECUTE | EXECUTED

datatype CollectorResultCode = INVALID | OK | STATE_CHANGED

text \<open>
  Modelled from the spec: the duplicate manager (DuplicateGuard), whose source is missing.
  Per hash it keeps a proposed mark and the sequence number of an execution.
  \<^verbatim>\<open>CheckIfExecuted\<close> is read by the caller as a \<^verbatim>\<open>uint64_t\<close> that is zero when the
  hash has not been executed; \<^verbatim>\<open>CheckAndAddProposed\<close> answers whether the hash is a
  duplicate (already proposed or already executed) and marks it otherwise;
  \<^verbatim>\<open>EraseProposed\<close> removes the mark.
\<close>

record DuplicateManager =
  proposed :: "string set"
  executed :: "string \<rightharpoonup> 64 word"

definition CheckIfExecuted :: "DuplicateManager \<Rightarrow> string \<Rightarrow> 64 word" where
  "CheckIfExecuted g h = (case executed g h of Some s \<Rightarrow> s | None \<Rightarrow> 0)"

definition CheckAndAddProposed :: "DuplicateManager \<Rightarrow> string \<Rightarrow> bool \<times> DuplicateManager" where
  "CheckAndAddProposed g h =
     (if h \<in> proposed g then (True, g)
      else if executed g h \<noteq> None then (True, g)
      else (False, g\<lparr>proposed := insert h (proposed g)\<rparr>))"

definition EraseProposed :: "DuplicateManager \<Rightarrow> string \<Rightarrow> DuplicateManager" where
  "EraseProposed g h = g\<lparr>proposed := proposed g - {h}\<rparr>"

definition MarkExecuted :: "DuplicateManager \<Rightarrow> string \<Rightarrow> 64 word \<Rightarrow> DuplicateManager" where
  "MarkExecuted g h s = g\<lparr>executed := (executed g)(h \<mapsto> s)\<rparr>"

text \<open>
  The message manager as a parameter: one field per member function that
  \<^verbatim>\<open>commitment.cpp\<close> calls on \<^verbatim>\<open>message_manager_\<close>, over a state \<open>'mm\<close>.
  \<open>mm_AddConsensusMsg\<close> also reaches the duplicate manager (the constructor hands its
  pointer over with \<^verbatim>\<open>SetDuplicateManager\<close>), and it takes the request by
  \<^verbatim>\<open>std::move\<close>: its third result is what the caller's \<^verbatim>\<open>unique_ptr\<close> holds after
  the call (\<open>None\<close> when the callee took ownership). \<open>mm_code\<close> is the integer value
  of a result code, which the recovery branches return as is.
\<close>

record 'mm MessageManager =
  mm_GetCurrentPrimary :: "'mm \<Rightarrow> 32 word"
  mm_GetCurrentView :: "'mm \<Rightarrow> 64 word"
  mm_GetPrimaryOfNode :: "'mm \<Rightarrow> 32 word \<Rightarrow> 32 word"
  mm_NodesInSameShard :: "'mm \<Rightarrow> 32 word \<Rightarrow> 32 word \<Rightarrow> bool"
  mm_GetShardOfNode :: "'mm \<Rightarrow> 32 word \<Rightarrow> 32 word"
  mm_GetPrimaryOfShard :: "'mm \<Rightarrow> 32 word \<Rightarrow> 32 word"
  mm_GetShardSize :: "'mm \<Rightarrow> 32 word \<Rightarrow> nat"
  mm_GetNodesInShard :: "'mm \<Rightarrow> 32 word \<Rightarrow> 32 word list"
  mm_GetShardCount :: "'mm \<Rightarrow> 64 word"
  mm_GetNextSeq :: "'mm \<Rightarrow> 64 word"
  mm_SetNextSeq :: "'mm \<Rightarrow> 64 word \<Rightarrow> 'mm"
  mm_AssignNextSeq :: "'mm \<Rightarrow> 64 word option \<times> 'mm"
  mm_GetHighestPreparedSeq :: "'mm \<Rightarrow> 64 word"
  mm_SetHighestPreparedSeq :: "'mm \<Rightarrow> 64 word \<Rightarrow> 'mm"
  mm_GetTransactionState :: "'mm \<Rightarrow> 64 word \<Rightarrow> TransactionStatue"
  mm_SendResponse :: "'mm \<Rightarrow> Request \<Rightarrow> 'mm"
  mm_AddConsensusMsg ::
    "'mm \<times> DuplicateManager \<Rightarrow> SignatureInfo \<Rightarrow> Request
       \<Rightarrow> CollectorResultCode \<times> ('mm \<times> DuplicateManager) \<times> Request option"
  mm_code :: "CollectorResultCode \<Rightarrow> int"
  NewRequest :: "Request_Type \<Rightarrow> Request \<Rightarrow> 32 word \<Rightarrow> Request"

text \<open>The signature verifier; the pointer may be null.\<close>

record SignatureVerifier =
  VerifyMessage :: "string \<Rightarrow> SignatureInfo \<Rightarrow> bool"
  SignMessage :: "string \<Rightarrow> SignatureInfo option"

text \<open>Calls on \<^verbatim>\<open>global_stats_\<close>, kept in the order they are made.\<close>

datatype stat_call = IncClientRequest | SeqFail | IncPropose | RecordStateTime string

text \<open>
  The members of \<^verbatim>\<open>Commitment\<close> that the entry points read or write. \<open>self_id\<close> is
  \<^verbatim>\<open>config_.GetSelfInfo().id()\<close> and \<open>is_faulty\<close> is \<^verbatim>\<open>global_stats_->IsFaulty()\<close>.
\<close>

record 'mm Commitment =
  self_id :: "32 word"
  message_manager :: 'mm
  duplicate_manager :: DuplicateManager
  verifier :: "SignatureVerifier option"
  pre_verify_func :: "(Request \<Rightarrow> bool) option"
  need_qc :: bool
  is_faulty :: bool
  request_complained :: "(Context \<times> Request) list"
  global_stats :: "stat_call list"

text \<open>What an entry point hands to \<^verbatim>\<open>replica_communicator_\<close>, in order.\<close>

datatype action = SendMessage Request "32 word" | BroadCast Request


text \<open>
  Undefined behaviour of the source is a value: dereferencing a null pointer, indexing a
  vector out of range, overflowing the \<^verbatim>\<open>int\<close> loop counter.
\<close>

datatype fault = NullPointer | OutOfRange | SignedOverflow

definition INT_MAX :: nat where
  "INT_MAX = 2 ^ 31 - 1"

text \<open>
  \<^verbatim>\<open>for (int i = 0; i < n; i++) body(i)\<close> with an unsigned bound: the comparison is
  unsigned and \<^verbatim>\<open>i++\<close> at \<^verbatim>\<open>INT_MAX\<close> overflows. The body yields the messages it
  sends or faults.
\<close>

function for_int :: "nat \<Rightarrow> nat \<Rightarrow> (nat \<Rightarrow> fault + action list) \<Rightarrow> fault + action list" where
  "for_int i n body =
     (if i < n then
        (case body i of
           Inl e \<Rightarrow> Inl e
         | Inr sent \<Rightarrow>
             if i = INT_MAX then Inl SignedOverflow
             else (case for_int (i + 1) n body of
                     Inl e \<Rightarrow> Inl e
                   | Inr rest \<Rightarrow> Inr (sent @ rest)))
      else Inr [])"
  by pat_completeness auto
termination
  by (relation "measure (\<lambda>(i, n, body). n - i)") auto

declare for_int.simps [simp del]

text \<open>\<^verbatim>\<open>v[i]\<close> on a vector.\<close>

definition at_index :: "'a list \<Rightarrow> nat \<Rightarrow> fault + 'a" where
  "at_index v i = (if i < length v then Inr (v ! i) else Inl OutOfRange)"

text \<open>
  The ingress test that opens \<^verbatim>\<open>ProcessProposeMsg\<close>, \<^verbatim>\<open>ProcessPrepareMsg\<close> and
  \<^verbatim>\<open>ProcessCommitMsg\<close> (the same condition in all three): the sender is not in the
  receiver's shard and the receiver is not the coordinator of its shard.
\<close>

definition from_outside_at_subnode :: "'mm MessageManager \<Rightarrow> 'mm Commitment \<Rightarrow> Request \<Rightarrow> bool" where
  "from_outside_at_subnode M c request \<longleftrightarrow>
     \<not> mm_NodesInSameShard M (message_manager c) (sender_id request) (self_id c)
     \<and> self_id c \<noteq> mm_GetPrimaryOfNode M (message_manager c) (self_id c)"

text \<open>
  The loop that sends \<open>msg\<close> to the members of the receiver's own shard, with the given
  bound; \<open>skip_self\<close> is the test \<^verbatim>\<open>!= config_.GetSelfInfo().id()\<close> of the
  pre-prepare loop in \<^verbatim>\<open>ProcessCommitMsg\<close>.
\<close>

definition send_to_own_shard ::
  "'mm MessageManager \<Rightarrow> 'mm \<Rightarrow> 32 word \<Rightarrow> nat \<Rightarrow> bool \<Rightarrow> Request \<Rightarrow> fault + action list" where
  "send_to_own_shard M mm self bound skip_self msg =
     for_int 0 bound (\<lambda>i.
       case at_index (mm_GetNodesInShard M mm (mm_GetShardOfNode M mm self)) i of
         Inl e \<Rightarrow> Inl e
       | Inr node \<Rightarrow> if skip_self \<and> node = self then Inr [] else Inr [SendMessage msg node])"

subsection \<open>ProcessNewRequest\<close>

definition ProcessNewRequest ::
  "'mm MessageManager \<Rightarrow> 'mm Commitment \<Rightarrow> Context option \<Rightarrow> Request
     \<Rightarrow> fault + (int \<times> 'mm Commitment \<times> action list)" where
  "ProcessNewRequest M c context user_request =
     (case context of
        None \<Rightarrow> Inr (- 2, c, [])
      | Some ctx \<Rightarrow>
     if signature (ctx_signature ctx) = [] then Inr (- 2, c, [])
     else if CheckIfExecuted (duplicate_manager c) (hash user_request) \<noteq> 0 then
       Inr (- 2,
            c\<lparr>message_manager :=
                 mm_SendResponse M (message_manager c)
                   (user_request\<lparr>seq := CheckIfExecuted (duplicate_manager c) (hash user_request)\<rparr>)\<rparr>,
            [])
     else if self_id c \<noteq> mm_GetPrimaryOfNode M (message_manager c) (self_id c) then
       Inr (- 3,
            c\<lparr>request_complained := request_complained c @ [(ctx, user_request)]\<rparr>,
            [SendMessage user_request (mm_GetPrimaryOfNode M (message_manager c) (self_id c))])
     else
       (case verifier c of
          None \<Rightarrow> Inl NullPointer
        | Some v \<Rightarrow>
       if \<not> VerifyMessage v (data user_request) (data_signature user_request) then Inr (- 2, c, [])
       else if (case pre_verify_func c of Some f \<Rightarrow> \<not> f user_request | None \<Rightarrow> False)
       then Inr (- 2, c, [])
       else
         (case CheckAndAddProposed (duplicate_manager c) (hash user_request) of
            (True, g) \<Rightarrow>
              Inr (- 2, c\<lparr>duplicate_manager := g, global_stats := global_stats c @ [IncClientRequest]\<rparr>, [])
          | (False, g) \<Rightarrow>
         (case mm_AssignNextSeq M (message_manager c) of
            (None, mm') \<Rightarrow>
              Inr (- 2,
                   c\<lparr>message_manager := mm',
                     duplicate_manager := EraseProposed g (hash user_request),
                     global_stats := global_stats c @ [IncClientRequest, SeqFail]\<rparr>,
                   [SendMessage
                      (default_Request\<lparr>type := TYPE_RESPONSE, sender_id := self_id c,
                         proxy_id := proxy_id user_request, ret := - 2,
                         hash := hash user_request\<rparr>)
                      (proxy_id user_request)])
          | (Some s, mm') \<Rightarrow>
              (case for_int 0 (unat (mm_GetShardCount M mm')) (\<lambda>i.
                      Inr [SendMessage
                             (user_request\<lparr>type := TYPE_PRE_PREPARE,
                                current_view := mm_GetCurrentView M mm', seq := s,
                                sender_id := self_id c, primary_id := self_id c\<rparr>)
                             (mm_GetPrimaryOfShard M mm' (of_nat i))]) of
                 Inl e \<Rightarrow> Inl e
               | Inr sent \<Rightarrow>
                   Inr (0,
                        c\<lparr>message_manager := mm', duplicate_manager := g,
                          global_stats :=
                            global_stats c @ [IncClientRequest, RecordStateTime ''request'']\<rparr>,
                        sent))))))"

subsection \<open>ProcessProposeMsg\<close>

text \<open>
  The part of \<^verbatim>\<open>ProcessProposeMsg\<close> after the checks (from \<^verbatim>\<open>IncPropose\<close> on).
  After \<^verbatim>\<open>AddConsensusMsg\<close> the source reads \<^verbatim>\<open>request->seq()\<close> and
  \<^verbatim>\<open>request->sender_id()\<close> through the pointer it has moved from. In the inner
  branch the loop bound is \<^verbatim>\<open>GetShardOfNode(GetShardSize(GetShardOfNode(self)))\<close>,
  the size being narrowed to the \<^verbatim>\<open>uint32_t\<close> parameter.
\<close>

definition ProcessProposeMsg_add ::
  "'mm MessageManager \<Rightarrow> 'mm Commitment \<Rightarrow> Context \<Rightarrow> Request
     \<Rightarrow> fault + (int \<times> 'mm Commitment \<times> action list)" where
  "ProcessProposeMsg_add M c ctx request =
     (case mm_AddConsensusMsg M (message_manager c, duplicate_manager c) (ctx_signature ctx) request of
        (r, (mm', g'), request') \<Rightarrow>
          if r = STATE_CHANGED then
            (case request' of
               None \<Rightarrow> Inl NullPointer
             | Some rq \<Rightarrow>
                 if mm_GetTransactionState M mm' (seq rq) = READY_PREPARE then
                   Inr (0,
                        c\<lparr>message_manager := mm', duplicate_manager := g',
                          global_stats :=
                            global_stats c @ [IncPropose, RecordStateTime ''pre-prepare'']\<rparr>,
                        SendMessage ((NewRequest M TYPE_PREPARE request (self_id c))\<lparr>data := []\<rparr>)
                          (self_id c)
                        # (if sender_id rq \<noteq> mm_GetCurrentPrimary M mm'
                           then [SendMessage
                                   ((NewRequest M TYPE_PREPARE request (self_id c))\<lparr>data := []\<rparr>)
                                   (mm_GetCurrentPrimary M mm')]
                           else []))
                 else
                   (case send_to_own_shard M mm' (self_id c)
                           (unat (mm_GetShardOfNode M mm'
                              (of_nat (mm_GetShardSize M mm' (mm_GetShardOfNode M mm' (self_id c))))))
                           False
                           ((NewRequest M TYPE_PREPARE request (self_id c))\<lparr>data := []\<rparr>) of
                      Inl e \<Rightarrow> Inl e
                    | Inr sent \<Rightarrow>
                        Inr (0,
                             c\<lparr>message_manager := mm', duplicate_manager := g',
                               global_stats :=
                                 global_stats c @ [IncPropose, RecordStateTime ''pre-prepare'']\<rparr>,
                             sent)))
          else
            Inr (if r = INVALID then - 2 else 0,
                 c\<lparr>message_manager := mm', duplicate_manager := g',
                   global_stats := global_stats c @ [IncPropose, RecordStateTime ''pre-prepare'']\<rparr>,
                 []))"

definition ProcessProposeMsg ::
  "'mm MessageManager \<Rightarrow> 'mm Commitment \<Rightarrow> Context option \<Rightarrow> Request
     \<Rightarrow> fault + (int \<times> 'mm Commitment \<times> action list)" where
  "ProcessProposeMsg M c context request =
     (if from_outside_at_subnode M c request then
        Inr (- 3, c,
             [SendMessage request
                (mm_GetPrimaryOfShard M (message_manager c)
                   (mm_GetShardOfNode M (message_manager c) (self_id c)))])
      else if is_faulty c then Inr (- 2, c, [])
      else
        (case context of
           None \<Rightarrow> Inr (- 2, c, [])
         | Some ctx \<Rightarrow>
        if signature (ctx_signature ctx) = [] then Inr (- 2, c, [])
        else if is_recovery request then
          (if mm_GetNextSeq M (message_manager c) = 0
              \<or> seq request = mm_GetNextSeq M (message_manager c) then
             (case mm_AddConsensusMsg M
                     (mm_SetNextSeq M (message_manager c) (seq request + 1), duplicate_manager c)
                     (ctx_signature ctx) request of
                (r, (mm', g'), request') \<Rightarrow>
                  Inr (mm_code M r, c\<lparr>message_manager := mm', duplicate_manager := g'\<rparr>, []))
           else Inr (0, c, []))
        else if sender_id request \<noteq> mm_GetCurrentPrimary M (message_manager c)
                \<and> sender_id request \<noteq> mm_GetPrimaryOfNode M (message_manager c) (self_id c)
        then Inr (- 2, c, [])
        else if sender_id request \<noteq> self_id c then
          (if (case pre_verify_func c of Some f \<Rightarrow> \<not> f request | None \<Rightarrow> False)
           then Inr (- 2, c, [])
           else
             (case verifier c of
                None \<Rightarrow> Inl NullPointer
              | Some v \<Rightarrow>
                  if \<not> VerifyMessage v (data request) (data_signature request) then Inr (- 2, c, [])
                  else
                    (case CheckAndAddProposed (duplicate_manager c) (hash request) of
                       (True, g) \<Rightarrow> Inr (- 2, c\<lparr>duplicate_manager := g\<rparr>, [])
                     | (False, g) \<Rightarrow>
                         ProcessProposeMsg_add M (c\<lparr>duplicate_manager := g\<rparr>) ctx request)))
        else ProcessProposeMsg_add M c ctx request))"

subsection \<open>ProcessPrepareMsg\<close>

text \<open>
  The commit message built before \<^verbatim>\<open>AddConsensusMsg\<close>: a copy with the data signature
  cleared. With \<^verbatim>\<open>need_qc_ && verifier_\<close> it is signed after the state change; a failed
  signing returns \<open>-2\<close>.
\<close>

definition commit_request_of :: "'mm MessageManager \<Rightarrow> 'mm Commitment \<Rightarrow> Request \<Rightarrow> Request" where
  "commit_request_of M c request =
     (NewRequest M TYPE_COMMIT request (self_id c))\<lparr>data_signature := empty_SignatureInfo\<rparr>"

definition sign_commit ::
  "'mm Commitment \<Rightarrow> Request \<Rightarrow> Request option" where
  "sign_commit c commit_request =
     (if need_qc c then
        (case verifier c of
           None \<Rightarrow> Some commit_request
         | Some v \<Rightarrow>
             (case SignMessage v (hash commit_request) of
                None \<Rightarrow> None
              | Some sg \<Rightarrow> Some (commit_request\<lparr>data_signature := sg\<rparr>)))
      else Some commit_request)"

definition ProcessPrepareMsg ::
  "'mm MessageManager \<Rightarrow> 'mm Commitment \<Rightarrow> Context option \<Rightarrow> Request
     \<Rightarrow> fault + (int \<times> 'mm Commitment \<times> action list)" where
  "ProcessPrepareMsg M c context request =
     (if from_outside_at_subnode M c request then
        Inr (- 3, c,
             [SendMessage request
                (mm_GetPrimaryOfShard M (message_manager c)
                   (mm_GetShardOfNode M (message_manager c) (self_id c)))])
      else
        (case context of
           None \<Rightarrow> Inr (- 2, c, [])
         | Some ctx \<Rightarrow>
        if signature (ctx_signature ctx) = [] then Inr (- 2, c, [])
        else if is_recovery request then
          (case mm_AddConsensusMsg M (message_manager c, duplicate_manager c)
                  (ctx_signature ctx) request of
             (r, (mm', g'), request') \<Rightarrow>
               Inr (mm_code M r, c\<lparr>message_manager := mm', duplicate_manager := g'\<rparr>, []))
        else
          (case mm_AddConsensusMsg M (message_manager c, duplicate_manager c)
                  (ctx_signature ctx) request of
             (r, (mm1, g'), request') \<Rightarrow>
               if r = STATE_CHANGED then
                 (let mm' = (if mm_GetHighestPreparedSeq M mm1 < seq request
                             then mm_SetHighestPreparedSeq M mm1 (seq request) else mm1)
                  in
                  case sign_commit c (commit_request_of M c request) of
                    None \<Rightarrow>
                      Inr (- 2, c\<lparr>message_manager := mm', duplicate_manager := g'\<rparr>, [])
                  | Some commit_request \<Rightarrow>
                      if mm_GetTransactionState M mm' (seq request) = READY_COMMIT then
                        Inr (0,
                             c\<lparr>message_manager := mm', duplicate_manager := g',
                               global_stats := global_stats c @ [RecordStateTime ''prepare'']\<rparr>,
                             if self_id c = mm_GetCurrentPrimary M mm'
                             then [BroadCast commit_request] else [])
                      else
                        (case send_to_own_shard M mm' (self_id c)
                                (mm_GetShardSize M mm' (mm_GetShardOfNode M mm' (self_id c)))
                                False commit_request of
                           Inl e \<Rightarrow> Inl e
                         | Inr sent \<Rightarrow>
                             Inr (0, c\<lparr>message_manager := mm', duplicate_manager := g'\<rparr>, sent)))
               else
                 Inr (if r = INVALID then - 2 else 0,
                      c\<lparr>message_manager := mm1, duplicate_manager := g'\<rparr>, []))))"

subsection \<open>ProcessCommitMsg\<close>

definition ProcessCommitMsg ::
  "'mm MessageManager \<Rightarrow> 'mm Commitment \<Rightarrow> Context option \<Rightarrow> Request
     \<Rightarrow> fault + (int \<times> 'mm Commitment \<times> action list)" where
  "ProcessCommitMsg M c context request =
     (if from_outside_at_subnode M c request then
        Inr (- 3, c,
             [SendMessage request
                (mm_GetPrimaryOfShard M (message_manager c)
                   (mm_GetShardOfNode M (message_manager c) (self_id c)))])
      else
        (case context of
           None \<Rightarrow> Inr (- 2, c, [])
         | Some ctx \<Rightarrow>
        if signature (ctx_signature ctx) = [] then Inr (- 2, c, [])
        else if is_recovery request then
          (case mm_AddConsensusMsg M (message_manager c, duplicate_manager c)
                  (ctx_signature ctx) request of
             (r, (mm', g'), request') \<Rightarrow>
               Inr (mm_code M r, c\<lparr>message_manager := mm', duplicate_manager := g'\<rparr>, []))
        else
          (case mm_AddConsensusMsg M (message_manager c, duplicate_manager c)
                  (ctx_signature ctx) request of
             (r, (mm', g'), request') \<Rightarrow>
               if r = STATE_CHANGED then
                 (case request' of
                    None \<Rightarrow> Inl NullPointer
                  | Some rq \<Rightarrow>
                      if mm_GetTransactionState M mm' (seq rq) = READY_EXECUTE then
                        Inr (0,
                             c\<lparr>message_manager := mm', duplicate_manager := g',
                               global_stats := global_stats c @ [RecordStateTime ''commit'']\<rparr>,
                             [])
                      else
                        (case send_to_own_shard M mm' (self_id c)
                                (mm_GetShardSize M mm' (mm_GetShardOfNode M mm' (self_id c)))
                                True (NewRequest M TYPE_PRE_PREPARE rq (self_id c)) of
                           Inl e \<Rightarrow> Inl e
                         | Inr sent1 \<Rightarrow>
                             (case send_to_own_shard M mm' (self_id c)
                                     (mm_GetShardSize M mm' (mm_GetShardOfNode M mm' (self_id c)))
                                     False (NewRequest M TYPE_PREPARE rq (self_id c)) of
                                Inl e \<Rightarrow> Inl e
                              | Inr sent2 \<Rightarrow>
                                  Inr (0, c\<lparr>message_manager := mm', duplicate_manager := g'\<rparr>,
                                       sent1 @ sent2))))
               else
                 Inr (if r = INVALID then - 2 else 0,
                      c\<lparr>message_manager := mm', duplicate_manager := g'\<rparr>, []))))"

subsection \<open>A message manager for the worked examples\<close>

text \<open>
  Modelled from the spec: a message manager to run the entry points on concrete inputs.
  The topology queries are answered by a \<open>SystemInfo\<close>; \<^verbatim>\<open>GetPrimaryOfNode(n)\<close> is the
  coordinator of the node's shard and \<^verbatim>\<open>NodesInSameShard(a, b)\<close> compares the shards of
  the two nodes; \<^verbatim>\<open>AssignNextSeq\<close> is a counter that fails beyond a cap;
  \<^verbatim>\<open>SendResponse\<close> and \<^verbatim>\<open>AddConsensusMsg\<close> record what they are given. The result
  code and the phase that \<^verbatim>\<open>AddConsensusMsg\<close> and \<^verbatim>\<open>GetTransactionState\<close> report are
  scripted by the example, and the request pointer stays valid after
  \<^verbatim>\<open>AddConsensusMsg\<close>. \<^verbatim>\<open>NewRequest\<close> copies the request and sets type and sender.
\<close>

record ScriptedManager =
  sm_info :: SystemInfo
  sm_responses :: "Request list"
  sm_slots :: "Request list"
  sm_next_seq :: "64 word"
  sm_max_seq :: "64 word"
  sm_highest_prepared :: "64 word"
  sm_result :: CollectorResultCode
  sm_phase :: TransactionStatue

definition scripted :: "ScriptedManager MessageManager" where
  "scripted =
     \<lparr>mm_GetCurrentPrimary = (\<lambda>m. GetPrimaryId (sm_info m)),
      mm_GetCurrentView = (\<lambda>m. GetCurrentView (sm_info m)),
      mm_GetPrimaryOfNode = (\<lambda>m n. GetPrimaryOfShard (sm_info m) (GetShardOfNode (sm_info m) n)),
      mm_NodesInSameShard = (\<lambda>m a b. GetShardOfNode (sm_info m) a = GetShardOfNode (sm_info m) b),
      mm_GetShardOfNode = (\<lambda>m. GetShardOfNode (sm_info m)),
      mm_GetPrimaryOfShard = (\<lambda>m. GetPrimaryOfShard (sm_info m)),
      mm_GetShardSize = (\<lambda>m. GetShardSize (sm_info m)),
      mm_GetNodesInShard = (\<lambda>m. GetNodesInShard (sm_info m)),
      mm_GetShardCount = (\<lambda>m. GetShardCount (sm_info m)),
      mm_GetNextSeq = sm_next_seq,
      mm_SetNextSeq = (\<lambda>m s. m\<lparr>sm_next_seq := s\<rparr>),
      mm_AssignNextSeq =
        (\<lambda>m. if sm_max_seq m < sm_next_seq m then (None, m)
             else (Some (sm_next_seq m), m\<lparr>sm_next_seq := sm_next_seq m + 1\<rparr>)),
      mm_GetHighestPreparedSeq = sm_highest_prepared,
      mm_SetHighestPreparedSeq = (\<lambda>m s. m\<lparr>sm_highest_prepared := s\<rparr>),
      mm_GetTransactionState = (\<lambda>m s. sm_phase m),
      mm_SendResponse = (\<lambda>m rq. m\<lparr>sm_responses := sm_responses m @ [rq]\<rparr>),
      mm_AddConsensusMsg =
        (\<lambda>mg sg rq. (sm_result (fst mg), ((fst mg)\<lparr>sm_slots := sm_slots (fst mg) @ [rq]\<rparr>, snd mg),
                      Some rq)),
      mm_code = (\<lambda>r. case r of INVALID \<Rightarrow> - 2 | OK \<Rightarrow> 0 | STATE_CHANGED \<Rightarrow> 1),
      NewRequest = (\<lambda>t rq sender. rq\<lparr>type := t, sender_id := sender\<rparr>)\<rparr>"

definition manager_of :: "SystemInfo \<Rightarrow> CollectorResultCode \<Rightarrow> TransactionStatue \<Rightarrow> ScriptedManager" where
  "manager_of info r ph =
     \<lparr>sm_info = info, sm_responses = [], sm_slots = [], sm_next_seq = 1, sm_max_seq = 3,
      sm_highest_prepared = 0, sm_result = r, sm_phase = ph\<rparr>"

definition accept_all :: SignatureVerifier where
  "accept_all = \<lparr>VerifyMessage = (\<lambda>d sg. True), SignMessage = (\<lambda>h. Some \<lparr>signature = ''qc''\<rparr>)\<rparr>"

definition replica_at :: "32 word \<Rightarrow> ScriptedManager \<Rightarrow> DuplicateManager \<Rightarrow> ScriptedManager Commitment" where
  "replica_at self mm g =
     \<lparr>self_id = self, message_manager = mm, duplicate_manager = g, verifier = Some accept_all,
      pre_verify_func = None, need_qc = False, is_faulty = False, request_complained = [],
      global_stats = []\<rparr>"

definition no_duplicates :: DuplicateManager where
  "no_duplicates = \<lparr>proposed = {}, executed = Map.empty\<rparr>"

definition signed_context :: Context where
  "signed_context = \<lparr>ctx_signature = \<lparr>signature = ''sig''\<rparr>\<rparr>"

definition request_from :: "32 word \<Rightarrow> Request_Type \<Rightarrow> Request" where
  "request_from sender t =
     \<lparr>type = t, seq = 1, current_view = 1, sender_id = sender, primary_id = 1, proxy_id = 9,
      hash = ''H'', data = ''D'', data_signature = \<lparr>signature = ''client''\<rparr>,
      is_recovery = False, ret = 0\<rparr>"


text \<open>
  The examples. Two shards over replicas 1..4 are \<open>{1, 3}\<close> and \<open>{2, 4}\<close> with
  coordinators 1 and 2; one shard holds all four with coordinator 1.
  \<open>subnode_4\<close> is a non-coordinator of the second shard; \<open>executed_H\<close> has seen hash
  \<open>H\<close> executed with sequence number 5; \<open>saturated_1\<close> is a coordinator whose
  sequence counter is beyond its cap; \<open>primary_1\<close> and \<open>coordinator_2\<close> are the
  coordinators of the two shards at the moment a PREPARE completes the outer quorum;
  \<open>primary_1_qc\<close> is the same primary with \<^verbatim>\<open>need_qc_\<close> set and a verifier that
  cannot sign; \<open>member_2\<close> is a member of the single shard receiving the inner
  PRE_PREPARE. \<open>recovery_prepare\<close> is a PREPARE of replica 2 replayed for recovery.
\<close>

definition subnode_4 :: "ScriptedManager Commitment" where
  "subnode_4 = replica_at 4 (manager_of (roster 2 4) OK IDLE) no_duplicates"

definition executed_H :: "ScriptedManager Commitment" where
  "executed_H = replica_at 3 (manager_of (roster 1 4) OK IDLE) (MarkExecuted no_duplicates ''H'' 5)"

definition saturated_1 :: "ScriptedManager Commitment" where
  "saturated_1 =
     replica_at 1 ((manager_of (roster 1 4) OK IDLE)\<lparr>sm_next_seq := 4\<rparr>) no_duplicates"






definition member_2 :: "ScriptedManager Commitment" where
  "member_2 = replica_at 2 (manager_of (roster 1 4) STATE_CHANGED READY_EXECUTE) no_duplicates"




section \<open>Properties of the topology\<close>

subsection \<open>Evaluation on concrete rosters\<close>

lemmas eval_simps = AddReplica_def AddReplicaToShard_def AddReplicaToShard_loop.simps
  subscript_def SIZE_MAX_def replica_n_def fresh_info_def SetShardCount_def
  GetShardSize_def GetNodesInShard_def GetShardOfNode_def GetPrimaryOfShard_def

subsection \<open>The search loop of AddReplicaToShard\<close>

lemma unat_ucast_32_64: "unat (ucast (i::32 word) :: 64 word) = unat i"
proof -
  have "unat i < 2 ^ 32" using unsigned_less [of i] by simp
  then have "unat i < 2 ^ 64" by simp
  then show ?thesis by (simp add: unsigned_ucast_eq take_bit_nat_eq_self)
qed

lemma ucast_less_iff: "(ucast (i :: 32 word) < (cnt :: 64 word)) \<longleftrightarrow> unat i < unat cnt"
  by (simp add: word_less_nat_alt unat_ucast_32_64)

lemma unat_suc32: "unat (i :: 32 word) < unat (cnt :: 64 word) \<Longrightarrow> unat cnt < 2 ^ 32 \<Longrightarrow> unat (i + 1) = Suc (unat i)"
  by (simp add: unat_word_ariths)

lemma subscript_len: "length (fst (subscript m k)) = vec_size m k"
  by (simp add: subscript_def vec_size_def split: option.splits)

lemma subscript_snd: "snd (subscript m k) = touched m (unat k) (Suc (unat k))"
proof (rule ext)
  fix x
  have xk: "(unat k \<le> unat x \<and> unat x < Suc (unat k)) \<longleftrightarrow> x = k"
    by (auto simp: word_unat_eq_iff)
  show "snd (subscript m k) x = touched m (unat k) (Suc (unat k)) x"
  proof (cases "x = k")
    case True
    then show ?thesis by (simp add: subscript_def touched_def split: option.splits)
  next
    case False
    with xk have "\<not> (unat k \<le> unat x \<and> unat x < Suc (unat k))" by simp
    with False show ?thesis by (auto simp: subscript_def touched_def split: option.splits)
  qed
qed

lemma vec_size_touched: "vec_size (touched m lo hi) k = vec_size m k"
  by (simp add: vec_size_def touched_def split: option.splits)

lemma touched_touched:
  "lo < hi \<Longrightarrow> touched (touched m lo (Suc lo)) (Suc lo) hi = touched m lo hi"
  by (auto simp: touched_def fun_eq_iff)

lemma first_min_touched: "first_min (touched m a b) lo hi k = first_min m lo hi k"
  by (simp add: first_min_def vec_size_touched)

lemma le_unat_cases: "unat (i :: 32 word) \<le> unat (j :: 32 word) \<Longrightarrow> j = i \<or> Suc (unat i) \<le> unat j"
  by (auto simp: word_unat_eq_iff)

lemma first_min_start:
  assumes "unat i < hi"
    and "\<forall>j. Suc (unat i) \<le> unat j \<and> unat j < hi \<longrightarrow> vec_size m i \<le> vec_size m j"
  shows "first_min m (unat i) hi i"
  unfolding first_min_def
proof (intro conjI allI impI)
  show "unat i \<le> unat i" by simp
  show "unat i < hi" by (rule assms(1))
next
  fix j :: "32 word" assume "unat i \<le> unat j \<and> unat j < hi"
  then show "vec_size m i \<le> vec_size m j"
    using assms(2) le_unat_cases [of i j] by auto
next
  fix j :: "32 word" assume "unat i \<le> unat j \<and> unat j < unat i"
  then show "vec_size m i < vec_size m j" by simp
qed

lemma first_min_extend:
  assumes "first_min m (Suc (unat i)) hi k" and "vec_size m k < vec_size m i"
  shows "first_min m (unat i) hi k"
  unfolding first_min_def
proof (intro conjI allI impI)
  show "unat i \<le> unat k" using assms(1) by (simp add: first_min_def)
  show "unat k < hi" using assms(1) by (simp add: first_min_def)
next
  fix j :: "32 word" assume "unat i \<le> unat j \<and> unat j < hi"
  then show "vec_size m k \<le> vec_size m j"
    using assms le_unat_cases [of i j] by (auto simp: first_min_def)
next
  fix j :: "32 word" assume "unat i \<le> unat j \<and> unat j < unat k"
  then show "vec_size m k < vec_size m j"
    using assms le_unat_cases [of i j] by (auto simp: first_min_def)
qed

lemma loop_spec:
  assumes "unat cnt < 2 ^ 32" and "unat i \<le> unat cnt" and "n = unat cnt - unat i"
  shows "\<exists>t ms. AddReplicaToShard_loop cnt i target min_size m = Some (t, ms, touched m (unat i) (unat cnt)) \<and>
           ((t = target \<and> ms = min_size \<and> (\<forall>j. unat i \<le> unat j \<and> unat j < unat cnt \<longrightarrow> min_size \<le> vec_size m j))
            \<or> (\<exists>k. t = ucast k \<and> ms = vec_size m k \<and> ms < min_size \<and> first_min m (unat i) (unat cnt) k))"
  using assms
proof (induction n arbitrary: i target min_size m)
  case 0
  then have "\<not> ucast i < cnt" by (simp add: ucast_less_iff)
  moreover have "touched m (unat i) (unat cnt) = m" using 0 by (auto simp: touched_def fun_eq_iff)
  ultimately show ?case using 0
    by (subst AddReplicaToShard_loop.simps) auto
next
  case (Suc n)
  then have lt: "unat i < unat cnt" by simp
  then have c: "ucast i < cnt" by (simp add: ucast_less_iff)
  have su: "unat (i + 1) = Suc (unat i)" using lt Suc.prems(1) by (rule unat_suc32)
  obtain v m' where sub: "subscript m i = (v, m')" by (cases "subscript m i")
  have v: "length v = vec_size m i" using subscript_len [of m i] sub by simp
  have m': "m' = touched m (unat i) (Suc (unat i))" using subscript_snd [of m i] sub by simp
  have tt: "touched m' (Suc (unat i)) (unat cnt) = touched m (unat i) (unat cnt)"
    unfolding m' using lt by (rule touched_touched)
  have vs: "\<And>j. vec_size m' j = vec_size m j" by (simp add: m' vec_size_touched)
  have fm: "\<And>lo hi k. first_min m' lo hi k = first_min m lo hi k" by (simp add: m' first_min_touched)
  have n: "n = unat cnt - unat (i + 1)" using Suc.prems su by simp
  have le: "unat (i + 1) \<le> unat cnt" using lt su by simp
  note IH = Suc.IH [OF Suc.prems(1) le n, unfolded su]
  show ?case
  proof (cases "vec_size m i < min_size")
    case True
    from IH [of "ucast i" "vec_size m i" m', unfolded tt vs fm]
    obtain t ms where r: "AddReplicaToShard_loop cnt (i + 1) (ucast i) (vec_size m i) m' = Some (t, ms, touched m (unat i) (unat cnt))"
      and d: "(t = ucast i \<and> ms = vec_size m i \<and> (\<forall>j. Suc (unat i) \<le> unat j \<and> unat j < unat cnt \<longrightarrow> vec_size m i \<le> vec_size m j))
            \<or> (\<exists>k. t = ucast k \<and> ms = vec_size m k \<and> ms < vec_size m i \<and> first_min m (Suc (unat i)) (unat cnt) k)"
      by blast
    have eq: "AddReplicaToShard_loop cnt i target min_size m = Some (t, ms, touched m (unat i) (unat cnt))"
      by (subst AddReplicaToShard_loop.simps) (simp add: c sub v True r)
    from d have "\<exists>k. t = ucast k \<and> ms = vec_size m k \<and> ms < min_size \<and> first_min m (unat i) (unat cnt) k"
    proof
      assume a: "t = ucast i \<and> ms = vec_size m i \<and> (\<forall>j. Suc (unat i) \<le> unat j \<and> unat j < unat cnt \<longrightarrow> vec_size m i \<le> vec_size m j)"
      then have "first_min m (unat i) (unat cnt) i"
        using lt by (simp add: first_min_start)
      with a True show ?thesis by blast
    next
      assume "\<exists>k. t = ucast k \<and> ms = vec_size m k \<and> ms < vec_size m i \<and> first_min m (Suc (unat i)) (unat cnt) k"
      then obtain k where k: "t = ucast k" "ms = vec_size m k" "ms < vec_size m i" "first_min m (Suc (unat i)) (unat cnt) k"
        by blast
      have "first_min m (unat i) (unat cnt) k"
        using k(2,3,4) by (simp add: first_min_extend)
      with k True show ?thesis by auto
    qed
    with eq show ?thesis by blast
  next
    case False
    from IH [of target min_size m', unfolded tt vs fm]
    obtain t ms where r: "AddReplicaToShard_loop cnt (i + 1) target min_size m' = Some (t, ms, touched m (unat i) (unat cnt))"
      and d: "(t = target \<and> ms = min_size \<and> (\<forall>j. Suc (unat i) \<le> unat j \<and> unat j < unat cnt \<longrightarrow> min_size \<le> vec_size m j))
            \<or> (\<exists>k. t = ucast k \<and> ms = vec_size m k \<and> ms < min_size \<and> first_min m (Suc (unat i)) (unat cnt) k)"
      by blast
    have eq: "AddReplicaToShard_loop cnt i target min_size m = Some (t, ms, touched m (unat i) (unat cnt))"
      by (subst AddReplicaToShard_loop.simps) (simp add: c sub v False r)
    from d have "(t = target \<and> ms = min_size \<and> (\<forall>j. unat i \<le> unat j \<and> unat j < unat cnt \<longrightarrow> min_size \<le> vec_size m j))
            \<or> (\<exists>k. t = ucast k \<and> ms = vec_size m k \<and> ms < min_size \<and> first_min m (unat i) (unat cnt) k)"
    proof
      assume a: "t = target \<and> ms = min_size \<and> (\<forall>j. Suc (unat i) \<le> unat j \<and> unat j < unat cnt \<longrightarrow> min_size \<le> vec_size m j)"
      then have "\<forall>j. unat i \<le> unat j \<and> unat j < unat cnt \<longrightarrow> min_size \<le> vec_size m j"
        using False le_unat_cases [of i] by (auto simp: not_less)
      with a show ?thesis by blast
    next
      assume "\<exists>k. t = ucast k \<and> ms = vec_size m k \<and> ms < min_size \<and> first_min m (Suc (unat i)) (unat cnt) k"
      then obtain k where k: "t = ucast k" "ms = vec_size m k" "ms < min_size" "first_min m (Suc (unat i)) (unat cnt) k"
        by blast
      have "vec_size m k < vec_size m i" using k(2,3) False by simp
      then have "first_min m (unat i) (unat cnt) k"
        using k(4) by (simp add: first_min_extend)
      with k show ?thesis by auto
    qed
    with eq show ?thesis by blast
  qed
qed

lemma loop_Some_bound:
  assumes "AddReplicaToShard_loop cnt i target min_size m = Some y"
  shows "unat cnt < 2 ^ 32"
proof (rule AddReplicaToShard_loop.raw_induct
    [where P = "\<lambda>cnt i target min_size m y. unat cnt < 2 ^ 32", OF _ assms])
  fix loop :: "64 word \<Rightarrow> 32 word \<Rightarrow> 64 word \<Rightarrow> nat \<Rightarrow> (32 word \<rightharpoonup> 32 word list)
        \<Rightarrow> (64 word \<times> nat \<times> (32 word \<rightharpoonup> 32 word list)) option"
  fix cnt :: "64 word" and i :: "32 word" and target :: "64 word" and min_size :: nat
    and m :: "32 word \<rightharpoonup> 32 word list" and y
  assume IH: "\<And>cnt i target min_size m y. loop cnt i target min_size m = Some y \<Longrightarrow> unat cnt < 2 ^ 32"
    and body: "(if ucast i < cnt then
        (case subscript m i of (v, m') \<Rightarrow>
           if length v < min_size
           then loop cnt (i + 1) (ucast i) (length v) m'
           else loop cnt (i + 1) target min_size m')
      else Some (target, min_size, m)) = Some y"
  show "unat cnt < 2 ^ 32"
  proof (cases "ucast i < cnt")
    case True
    with body IH show ?thesis by (auto split: prod.splits if_splits)
  next
    case False
    then have "unat cnt \<le> unat i" by (simp add: ucast_less_iff)
    moreover have "unat i < 2 ^ 32" using unsigned_less [of i] by simp
    ultimately show ?thesis by simp
  qed
qed

lemma ucast_ucast_32: "(ucast (ucast (k :: 32 word) :: 64 word) :: 32 word) = k"
  by (rule ucast_up_ucast_id) (simp add: is_up)

lemma subscript_touched:
  "unat k < hi \<Longrightarrow> subscript (touched m 0 hi) k = (nodes_of m k, touched m 0 hi)"
  by (auto simp: subscript_def touched_def nodes_of_def split: option.splits)

lemma AddReplicaToShard_result:
  assumes "AddReplicaToShard r s = Some s'" and "shard_count s \<noteq> 0"
  shows "unat (shard_count s) < 2 ^ 32 \<and>
         (\<exists>k. unat k < unat (shard_count s) \<and> s' = assign r k s \<and>
              ((\<forall>j. unat j < unat (shard_count s) \<longrightarrow> SIZE_MAX \<le> vec_size (shard_to_nodes s) j)
               \<or> first_min (shard_to_nodes s) 0 (unat (shard_count s)) k))"
proof -
  let ?cnt = "shard_count s" and ?m = "shard_to_nodes s"
  from assms obtain y where y: "AddReplicaToShard_loop ?cnt 0 0 SIZE_MAX ?m = Some y"
    by (auto simp: AddReplicaToShard_def split: option.splits)
  then have b: "unat ?cnt < 2 ^ 32" by (rule loop_Some_bound)
  have pos: "0 < unat ?cnt" using assms(2) by (simp add: unat_gt_0)
  from loop_spec [OF b, of 0 "unat ?cnt" 0 SIZE_MAX ?m]
  obtain t ms where r: "AddReplicaToShard_loop ?cnt 0 0 SIZE_MAX ?m = Some (t, ms, touched ?m 0 (unat ?cnt))"
    and d: "(t = 0 \<and> ms = SIZE_MAX \<and> (\<forall>j. unat j < unat ?cnt \<longrightarrow> SIZE_MAX \<le> vec_size ?m j))
            \<or> (\<exists>k. t = ucast k \<and> ms = vec_size ?m k \<and> ms < SIZE_MAX \<and> first_min ?m 0 (unat ?cnt) k)"
    by auto
  from d obtain k :: "32 word" where k: "t = ucast k" "unat k < unat ?cnt"
    "(\<forall>j. unat j < unat ?cnt \<longrightarrow> SIZE_MAX \<le> vec_size ?m j) \<or> first_min ?m 0 (unat ?cnt) k"
  proof
    assume "t = 0 \<and> ms = SIZE_MAX \<and> (\<forall>j. unat j < unat ?cnt \<longrightarrow> SIZE_MAX \<le> vec_size ?m j)"
    then show ?thesis using that [of 0] pos by simp
  next
    assume "\<exists>k. t = ucast k \<and> ms = vec_size ?m k \<and> ms < SIZE_MAX \<and> first_min ?m 0 (unat ?cnt) k"
    then show ?thesis using that by (auto simp: first_min_def)
  qed
  have "s' = assign r k s"
    using assms r k(1,2)
    by (cases "shard_primaries s k")
      (auto simp: AddReplicaToShard_def ucast_ucast_32 subscript_touched assign_def)
  with b k show ?thesis by blast
qed

lemma AddReplicaToShard_total:
  assumes "unat (shard_count s) < 2 ^ 32"
  shows "\<exists>s'. AddReplicaToShard r s = Some s'"
proof -
  from loop_spec [OF assms, of 0 "unat (shard_count s)" 0 SIZE_MAX "shard_to_nodes s"]
  show ?thesis
    by (auto simp: AddReplicaToShard_def split: prod.splits)
qed

lemma GetShardSize_vec_size: "GetShardSize s k = vec_size (shard_to_nodes s) k"
  by (simp add: GetShardSize_def vec_size_def)

lemma GetNodesInShard_nodes_of: "GetNodesInShard s k = nodes_of (shard_to_nodes s) k"
  by (simp add: GetNodesInShard_def nodes_of_def)

lemma length_nodes_of: "length (nodes_of m k) = vec_size m k"
  by (simp add: nodes_of_def vec_size_def split: option.splits)

lemma nodes_of_touched: "nodes_of (touched m lo hi) k = nodes_of m k"
  by (simp add: nodes_of_def touched_def split: option.splits)

lemma nodes_of_assign:
  "nodes_of (shard_to_nodes (assign r k s)) j =
     (if j = k then nodes_of (shard_to_nodes s) k @ [replica_id r] else nodes_of (shard_to_nodes s) j)"
  by (auto simp: assign_def nodes_of_def touched_def split: option.splits)

lemma vec_size_assign:
  "vec_size (shard_to_nodes (assign r k s)) j =
     (if j = k then Suc (vec_size (shard_to_nodes s) k) else vec_size (shard_to_nodes s) j)"
  using nodes_of_assign [of r k s j] length_nodes_of [of "shard_to_nodes (assign r k s)" j]
  by (simp add: length_nodes_of split: if_splits)

lemma AddReplica_cases:
  assumes "AddReplica r s = Some s'"
  obtains (unchanged) "s' = s"
  | (added) k where "replica_id r \<notin> replica_id ` set (replicas s)" and "shard_count s \<noteq> 0"
      and "unat (shard_count s) < 2 ^ 32" and "unat k < unat (shard_count s)" and "s' = assign r k s"
      and "(\<forall>j. unat j < unat (shard_count s) \<longrightarrow> SIZE_MAX \<le> vec_size (shard_to_nodes s) j)
             \<or> first_min (shard_to_nodes s) 0 (unat (shard_count s)) k"
proof (cases "replica_id r = 0 \<or> ip r = [] \<or> port r = 0 \<or> replica_id r \<in> replica_id ` set (replicas s)
               \<or> shard_count s = 0")
  case True
  with assms have "s' = s" by (auto simp: AddReplica_def AddReplicaToShard_def split: if_splits)
  then show ?thesis by (rule unchanged)
next
  case False
  with assms have a: "AddReplicaToShard r s = Some s'" by (auto simp: AddReplica_def)
  from AddReplicaToShard_result [OF a] False added show ?thesis by blast
qed

lemma card_ids_bound: "card (A :: 32 word set) < SIZE_MAX"
proof -
  have "card A \<le> card (UNIV :: 32 word set)" by (rule card_mono) simp_all
  also have "\<dots> = 2 ^ 32" by (simp add: card_word)
  finally show ?thesis by (simp add: SIZE_MAX_def)
qed

lemma bounded_sizes_lt: "bounded_sizes s \<Longrightarrow> vec_size (shard_to_nodes s) k < SIZE_MAX"
  unfolding bounded_sizes_def using card_ids_bound le_less_trans by blast

lemma shard_count_assign [simp]: "shard_count (assign r k s) = shard_count s"
  by (simp add: assign_def)

lemma replicas_assign [simp]: "replicas (assign r k s) = replicas s @ [r]"
  by (simp add: assign_def)

lemma AddReplica_shard_count: "AddReplica r s = Some s' \<Longrightarrow> shard_count s' = shard_count s"
  by (erule AddReplica_cases) simp_all

lemma AddReplica_bounded_sizes:
  assumes "AddReplica r s = Some s'" and "bounded_sizes s"
  shows "bounded_sizes s'"
  using assms(1)
proof (cases rule: AddReplica_cases)
  case unchanged
  with assms(2) show ?thesis by simp
next
  case (added k)
  have "card (replica_id ` set (replicas s')) = Suc (card (replica_id ` set (replicas s)))"
    using added(1,5) by simp
  with assms(2) added(5) show ?thesis
    by (auto simp: bounded_sizes_def vec_size_assign le_SucI)
qed

lemma AddReplica_balanced:
  assumes "AddReplica r s = Some s'" and "bounded_sizes s" and "balanced s"
  shows "balanced s'"
  using assms(1)
proof (cases rule: AddReplica_cases)
  case unchanged
  with assms(3) show ?thesis by simp
next
  case (added k)
  have "\<not> SIZE_MAX \<le> vec_size (shard_to_nodes s) k"
    using bounded_sizes_lt [OF assms(2), of k] by simp
  with added(4,6) have fm: "first_min (shard_to_nodes s) 0 (unat (shard_count s)) k" by blast
  then have least: "\<And>j. unat j < unat (shard_count s) \<Longrightarrow>
      vec_size (shard_to_nodes s) k \<le> vec_size (shard_to_nodes s) j"
    by (simp add: first_min_def)
  show ?thesis
    unfolding balanced_def
  proof (intro allI impI)
    fix a b :: "32 word"
    assume ab: "unat a < unat (shard_count s') \<and> unat b < unat (shard_count s')"
    then have a: "unat a < unat (shard_count s)" and b: "unat b < unat (shard_count s)"
      using added(5) by simp_all
    have old: "vec_size (shard_to_nodes s) a \<le> vec_size (shard_to_nodes s) b + 1"
      using assms(3) a b by (simp add: balanced_def)
    show "vec_size (shard_to_nodes s') a \<le> vec_size (shard_to_nodes s') b + 1"
      using old least [OF a] least [OF b] added(4)
      by (auto simp: added(5) vec_size_assign)
  qed
qed

lemma run_AddReplica_inv:
  assumes "run_calls (map Call_AddReplica rs) s0 = Some s" and "bounded_sizes s0" and "balanced s0"
  shows "bounded_sizes s \<and> balanced s \<and> shard_count s = shard_count s0"
  using assms
proof (induction rs arbitrary: s0)
  case Nil
  then show ?case by simp
next
  case (Cons r rs)
  from Cons.prems(1) obtain s1 where s1: "AddReplica r s0 = Some s1"
    and rest: "run_calls (map Call_AddReplica rs) s1 = Some s"
    by (auto split: option.splits)
  from Cons.IH [OF rest AddReplica_bounded_sizes [OF s1 Cons.prems(2)]
      AddReplica_balanced [OF s1 Cons.prems(2,3)]] AddReplica_shard_count [OF s1]
  show ?case by simp
qed

lemma no_assignment_inv: "no_assignment s \<Longrightarrow> bounded_sizes s \<and> balanced s"
  by (simp add: no_assignment_def bounded_sizes_def balanced_def vec_size_def)

lemma shard_primaries_assign:
  "shard_primaries (assign r k s) j =
     (if j = k \<and> shard_primaries s k = None then Some (replica_id r) else shard_primaries s j)"
  by (simp add: assign_def)

lemma node_to_shard_assign:
  "node_to_shard (assign r k s) n = (if n = replica_id r then Some k else node_to_shard s n)"
  by (simp add: assign_def)

lemma AddReplica_coordinators_ok:
  assumes "AddReplica r s = Some s'" and "coordinators_ok s"
  shows "coordinators_ok s'"
  using assms(1)
proof (cases rule: AddReplica_cases)
  case unchanged
  with assms(2) show ?thesis by simp
next
  case (added k)
  show ?thesis
    unfolding coordinators_ok_def added(5)
  proof (intro conjI allI impI)
    fix j p assume "shard_primaries (assign r k s) j = Some p"
    then show "p \<in> set (nodes_of (shard_to_nodes (assign r k s)) j)"
      using assms(2)
      by (auto simp: coordinators_ok_def shard_primaries_assign nodes_of_assign split: if_splits)
  next
    fix j assume "nodes_of (shard_to_nodes (assign r k s)) j \<noteq> []"
    then show "shard_primaries (assign r k s) j \<noteq> None"
      using assms(2)
      by (auto simp: coordinators_ok_def shard_primaries_assign nodes_of_assign split: if_splits)
  qed
qed

lemma SetShardCount_coordinators_ok: "coordinators_ok (SetShardCount c s)"
  by (simp add: coordinators_ok_def SetShardCount_def nodes_of_def)

lemma run_calls_coordinators_ok:
  assumes "run_calls cs s0 = Some s" and "coordinators_ok s0"
  shows "coordinators_ok s"
  using assms
proof (induction cs s0 rule: run_calls.induct)
  case (1 s0)
  then show ?case by simp
next
  case (2 c cs s0)
  then show ?case by (simp add: SetShardCount_coordinators_ok)
next
  case (3 r cs s0)
  from "3.prems"(1) obtain s1 where s1: "AddReplica r s0 = Some s1" and rest: "run_calls cs s1 = Some s"
    by (auto split: option.splits)
  from "3.IH" [OF s1 rest AddReplica_coordinators_ok [OF s1 "3.prems"(2)]] show ?case .
qed

lemma AddReplica_rejects:
  assumes "replica_id r = 0 \<or> ip r = [] \<or> port r = 0
             \<or> replica_id r \<in> replica_id ` set (replicas s) \<or> shard_count s = 0"
  shows "AddReplica r s = Some s"
  using assms by (auto simp: AddReplica_def AddReplicaToShard_def)

lemma AddReplica_idempotent:
  assumes "AddReplica r s = Some s'"
  shows "AddReplica r s' = Some s'"
  using assms
proof (cases rule: AddReplica_cases)
  case unchanged
  with assms show ?thesis by simp
next
  case (added k)
  then have "replica_id r \<in> replica_id ` set (replicas s')" by simp
  then show ?thesis by (rule AddReplica_rejects [OF disjI2, OF disjI2, OF disjI2, OF disjI1])
qed

lemma AddReplica_accepts:
  assumes wf: "replica_id r \<noteq> 0" "ip r \<noteq> []" "port r \<noteq> 0"
    and new: "replica_id r \<notin> replica_id ` set (replicas s)"
    and cnt: "shard_count s \<noteq> 0" "unat (shard_count s) < 2 ^ 32"
    and sz: "\<forall>j. ucast j < shard_count s \<longrightarrow> GetShardSize s j < SIZE_MAX"
  shows "\<exists>k. AddReplica r s = Some (assign r k s) \<and> first_min (shard_to_nodes s) 0 (unat (shard_count s)) k"
proof -
  from AddReplicaToShard_total [OF cnt(2)] obtain s' where s': "AddReplicaToShard r s = Some s'"
    by blast
  then have a: "AddReplica r s = Some s'" using wf new by (simp add: AddReplica_def)
  from AddReplicaToShard_result [OF s' cnt(1)] obtain k where k: "unat k < unat (shard_count s)"
    "s' = assign r k s"
    "(\<forall>j. unat j < unat (shard_count s) \<longrightarrow> SIZE_MAX \<le> vec_size (shard_to_nodes s) j)
       \<or> first_min (shard_to_nodes s) 0 (unat (shard_count s)) k"
    by blast
  have "vec_size (shard_to_nodes s) k < SIZE_MAX"
    using sz k(1) by (simp add: ucast_less_iff GetShardSize_vec_size)
  with k(1,3) have "first_min (shard_to_nodes s) 0 (unat (shard_count s)) k"
    by (auto simp: not_le [symmetric])
  with a k(2) show ?thesis by blast
qed

subsection \<open>Claims about the topology\<close>

text \<open>
  C3 (shard-load balance). Start from a state with no assignment and run any sequence of
  \<open>AddReplica\<close> calls that return (accepted or rejected ones alike; the shard count is
  never touched). Then the sizes of any two shards with ids below the shard count differ by
  at most one. The theorem has no bound on the count: a call that has to assign a replica
  returns only when the count fits the 32-bit loop counter.
\<close>

theorem shard_load_balance:
  assumes "no_assignment s0"
    and "run_calls (map Call_AddReplica rs) s0 = Some s"
    and "ucast a < shard_count s0" and "ucast b < shard_count s0"
  shows "GetShardSize s a \<le> GetShardSize s b + 1"
proof -
  from no_assignment_inv [OF assms(1)] run_AddReplica_inv [OF assms(2)]
  have "balanced s" and "shard_count s = shard_count s0" by simp_all
  with assms(3,4) show ?thesis
    by (simp add: balanced_def GetShardSize_vec_size ucast_less_iff)
qed

text \<open>
  Three replicas over two shards: sizes 2 and 1.
\<close>

theorem shard_load_balance_witness:
  "no_assignment (fresh_info 2) \<and>
   run_calls (map Call_AddReplica [replica_n 1, replica_n 2, replica_n 3]) (fresh_info 2)
     = Some (roster 2 3) \<and>
   ucast (0 :: 32 word) < shard_count (fresh_info 2) \<and>
   ucast (1 :: 32 word) < shard_count (fresh_info 2) \<and>
   GetShardSize (roster 2 3) 0 = 2 \<and> GetShardSize (roster 2 3) 1 = 1 \<and>
   GetShardSize (roster 2 3) 0 \<le> GetShardSize (roster 2 3) 1 + 1 \<and>
   GetShardSize (roster 2 3) 1 \<le> GetShardSize (roster 2 3) 0 + 1"
proof -
  have a: "no_assignment (fresh_info 2)" by (simp add: no_assignment_def fresh_info_def)
  have c: "run_calls (map Call_AddReplica [replica_n 1, replica_n 2, replica_n 3]) (fresh_info 2)
             = Some (roster 2 3)"
    by (simp add: roster_def eval_simps upt_conv_Cons)
  have d: "ucast (0 :: 32 word) < shard_count (fresh_info 2)" by (simp add: fresh_info_def)
  have e: "ucast (1 :: 32 word) < shard_count (fresh_info 2)" by (simp add: fresh_info_def)
  have f: "GetShardSize (roster 2 3) 0 = 2" by (simp add: roster_def eval_simps upt_conv_Cons)
  have g: "GetShardSize (roster 2 3) 1 = 1" by (simp add: roster_def eval_simps upt_conv_Cons)
  from shard_load_balance [OF a c d e] shard_load_balance [OF a c e d] a c d e f g
  show ?thesis by simp
qed

text \<open>
  C5 (coordinator existence). In every state reached from a fresh \<open>SystemInfo\<close> by
  \<open>SetShardCount\<close> and \<open>AddReplica\<close> calls, a shard with at least one member has
  exactly one entry in \<^verbatim>\<open>shard_primaries_\<close>, and \<open>GetPrimaryOfShard\<close> returns a
  member of the shard.
\<close>

theorem coordinator_existence:
  assumes "no_assignment s0" and "run_calls cs s0 = Some s" and "0 < GetShardSize s k"
  shows "(\<exists>!p. shard_primaries s k = Some p) \<and> GetPrimaryOfShard s k \<in> set (GetNodesInShard s k)"
proof -
  have "coordinators_ok s0"
    using assms(1) by (simp add: no_assignment_def coordinators_ok_def nodes_of_def)
  with assms(2) have ok: "coordinators_ok s" by (rule run_calls_coordinators_ok)
  have "nodes_of (shard_to_nodes s) k \<noteq> []"
    using assms(3) by (auto simp: GetShardSize_vec_size length_nodes_of [symmetric])
  with ok obtain p where p: "shard_primaries s k = Some p" "p \<in> set (nodes_of (shard_to_nodes s) k)"
    by (auto simp: coordinators_ok_def)
  then show ?thesis
    by (auto simp: GetPrimaryOfShard_def GetNodesInShard_nodes_of)
qed

text \<open>
  A history that re-shards after the first registration.
\<close>

theorem coordinator_existence_witness:
  "no_assignment (fresh_info 7) \<and>
   run_calls resharding_history (fresh_info 7) = Some resharded \<and>
   GetShardSize resharded 1 = 1 \<and>
   (\<exists>!p. shard_primaries resharded 1 = Some p) \<and>
   GetPrimaryOfShard resharded 1 \<in> set (GetNodesInShard resharded 1) \<and>
   GetPrimaryOfShard resharded 1 = 3"
proof -
  have a: "no_assignment (fresh_info 7)" by (simp add: no_assignment_def fresh_info_def)
  have b: "run_calls resharding_history (fresh_info 7) = Some resharded"
    by (simp add: resharded_def resharding_history_def eval_simps)
  have d: "GetShardSize resharded 1 = 1"
    by (simp add: resharded_def resharding_history_def eval_simps)
  then have e: "0 < GetShardSize resharded 1" by simp
  have f: "GetPrimaryOfShard resharded 1 = 3"
    by (simp add: resharded_def resharding_history_def eval_simps)
  from coordinator_existence [OF a b e] a b d f show ?thesis by simp
qed

text \<open>
  C10. \<open>GetShardSize\<close> is the length of \<open>GetNodesInShard\<close> for every shard id; on
  an id without an entry they return 0 and the empty list.
\<close>

theorem GetShardSize_GetNodesInShard:
  "GetShardSize s k = length (GetNodesInShard s k) \<and>
   GetShardSize (s\<lparr>shard_to_nodes := (shard_to_nodes s)(k := None)\<rparr>) k = 0 \<and>
   GetNodesInShard (s\<lparr>shard_to_nodes := (shard_to_nodes s)(k := None)\<rparr>) k = []"
  by (simp add: GetShardSize_def GetNodesInShard_def split: option.splits)

text \<open>
  C9, as the code has it. \<open>SetShardCount\<close> never fails: whatever is assigned, it stores
  the count and clears the three shard maps, so every shard reads as empty, every node as
  unassigned and every shard as without coordinator; the roster, the primary and the view
  are kept.
\<close>

theorem SetShardCount_unguarded:
  "GetShardCount (SetShardCount c s) = c \<and>
   node_to_shard (SetShardCount c s) = Map.empty \<and>
   shard_to_nodes (SetShardCount c s) = Map.empty \<and>
   shard_primaries (SetShardCount c s) = Map.empty \<and>
   GetShardSize (SetShardCount c s) k = 0 \<and>
   GetShardOfNode (SetShardCount c s) n = UINT32_MAX \<and>
   GetPrimaryOfShard (SetShardCount c s) k = UINT_MAX \<and>
   GetReplicas (SetShardCount c s) = GetReplicas s \<and>
   GetPrimaryId (SetShardCount c s) = GetPrimaryId s \<and>
   GetCurrentView (SetShardCount c s) = GetCurrentView s"
  by (simp add: SetShardCount_def GetShardCount_def GetShardSize_def GetShardOfNode_def
      GetPrimaryOfShard_def GetReplicas_def GetPrimaryId_def GetCurrentView_def)

text \<open>
  C9 as stated fails: with replica 1 assigned to shard 0, \<open>SetShardCount 2\<close> does not
  leave the state unchanged; it drops the assignment.
\<close>

theorem SetShardCount_fails_counterexample:
  "GetShardOfNode (roster 1 1) 1 = 0 \<and>
   GetShardSize (roster 1 1) 0 = 1 \<and>
   SetShardCount 2 (roster 1 1) \<noteq> roster 1 1 \<and>
   GetShardSize (SetShardCount 2 (roster 1 1)) 0 = 0 \<and>
   GetShardOfNode (SetShardCount 2 (roster 1 1)) 1 = UINT32_MAX"
proof -
  have a: "GetShardOfNode (roster 1 1) 1 = 0" by (simp add: roster_def eval_simps)
  have b: "GetShardSize (roster 1 1) 0 = 1" by (simp add: roster_def eval_simps)
  have c: "GetShardSize (SetShardCount 2 (roster 1 1)) 0 = 0"
    by (simp add: SetShardCount_def GetShardSize_def)
  have d: "GetShardOfNode (SetShardCount 2 (roster 1 1)) 1 = UINT32_MAX"
    by (simp add: SetShardCount_def GetShardOfNode_def)
  from b c have "SetShardCount 2 (roster 1 1) \<noteq> roster 1 1" by auto
  with a b c d show ?thesis by simp
qed

text \<open>
  C4, as the code has it. \<open>AddReplica\<close> returns the state unchanged for a malformed
  replica, for an id already in the roster, and when the shard count is 0. For a well-formed
  new replica and a shard count between 1 and \<open>2^32 - 1\<close> it appends the replica to the
  roster, assigns it to the shard of minimum size with the smallest id, appends its id to
  that shard's list, and records it as coordinator when the shard had none; other shards,
  other nodes, the count, the primary and the view are as before. A call that returned is
  a no-op when repeated.
\<close>

theorem AddReplica_placement:
  "(replica_id r = 0 \<or> ip r = [] \<or> port r = 0
      \<or> replica_id r \<in> replica_id ` set (GetReplicas s) \<or> GetShardCount s = 0
     \<longrightarrow> AddReplica r s = Some s) \<and>
   (replica_id r \<noteq> 0 \<and> ip r \<noteq> [] \<and> port r \<noteq> 0
      \<and> replica_id r \<notin> replica_id ` set (GetReplicas s)
      \<and> GetShardCount s \<noteq> 0 \<and> unat (GetShardCount s) < 2 ^ 32
      \<and> (\<forall>j. ucast j < GetShardCount s \<longrightarrow> GetShardSize s j < SIZE_MAX)
     \<longrightarrow> (\<exists>s' k. AddReplica r s = Some s' \<and> ucast k < GetShardCount s
            \<and> (\<forall>j. ucast j < GetShardCount s \<longrightarrow> GetShardSize s k \<le> GetShardSize s j)
            \<and> (\<forall>j. j < k \<longrightarrow> GetShardSize s k < GetShardSize s j)
            \<and> GetReplicas s' = GetReplicas s @ [r]
            \<and> GetShardOfNode s' (replica_id r) = k
            \<and> GetNodesInShard s' k = GetNodesInShard s k @ [replica_id r]
            \<and> (\<forall>j. j \<noteq> k \<longrightarrow> GetNodesInShard s' j = GetNodesInShard s j)
            \<and> (\<forall>n. n \<noteq> replica_id r \<longrightarrow> GetShardOfNode s' n = GetShardOfNode s n)
            \<and> GetPrimaryOfShard s' k
                = (if shard_primaries s k = None then replica_id r else GetPrimaryOfShard s k)
            \<and> (\<forall>j. j \<noteq> k \<longrightarrow> shard_primaries s' j = shard_primaries s j)
            \<and> GetShardCount s' = GetShardCount s
            \<and> GetPrimaryId s' = GetPrimaryId s \<and> GetCurrentView s' = GetCurrentView s)) \<and>
   (\<forall>s'. AddReplica r s = Some s' \<longrightarrow> AddReplica r s' = Some s')"
proof (intro conjI impI allI)
  assume "replica_id r = 0 \<or> ip r = [] \<or> port r = 0
      \<or> replica_id r \<in> replica_id ` set (GetReplicas s) \<or> GetShardCount s = 0"
  then show "AddReplica r s = Some s"
    unfolding GetReplicas_def GetShardCount_def by (rule AddReplica_rejects)
next
  fix s' assume "AddReplica r s = Some s'"
  then show "AddReplica r s' = Some s'" by (rule AddReplica_idempotent)
next
  assume h: "replica_id r \<noteq> 0 \<and> ip r \<noteq> [] \<and> port r \<noteq> 0
      \<and> replica_id r \<notin> replica_id ` set (GetReplicas s)
      \<and> GetShardCount s \<noteq> 0 \<and> unat (GetShardCount s) < 2 ^ 32
      \<and> (\<forall>j. ucast j < GetShardCount s \<longrightarrow> GetShardSize s j < SIZE_MAX)"
  then obtain k where a: "AddReplica r s = Some (assign r k s)"
    and fm: "first_min (shard_to_nodes s) 0 (unat (shard_count s)) k"
    using AddReplica_accepts [of r s] unfolding GetReplicas_def GetShardCount_def by blast
  have 1: "ucast k < GetShardCount s"
    using fm by (simp add: first_min_def ucast_less_iff GetShardCount_def)
  have 2: "\<forall>j. ucast j < GetShardCount s \<longrightarrow> GetShardSize s k \<le> GetShardSize s j"
    using fm by (simp add: first_min_def ucast_less_iff GetShardCount_def GetShardSize_vec_size)
  have 3: "\<forall>j. j < k \<longrightarrow> GetShardSize s k < GetShardSize s j"
    using fm by (simp add: first_min_def word_less_nat_alt GetShardSize_vec_size)
  have 4: "GetReplicas (assign r k s) = GetReplicas s @ [r]" by (simp add: GetReplicas_def)
  have 5: "GetShardOfNode (assign r k s) (replica_id r) = k"
    by (simp add: GetShardOfNode_def node_to_shard_assign)
  have 6: "GetNodesInShard (assign r k s) k = GetNodesInShard s k @ [replica_id r]"
    by (simp add: GetNodesInShard_nodes_of nodes_of_assign)
  have 7: "\<forall>j. j \<noteq> k \<longrightarrow> GetNodesInShard (assign r k s) j = GetNodesInShard s j"
    by (simp add: GetNodesInShard_nodes_of nodes_of_assign)
  have 8: "\<forall>n. n \<noteq> replica_id r \<longrightarrow> GetShardOfNode (assign r k s) n = GetShardOfNode s n"
    by (simp add: GetShardOfNode_def node_to_shard_assign)
  have 9: "GetPrimaryOfShard (assign r k s) k
                = (if shard_primaries s k = None then replica_id r else GetPrimaryOfShard s k)"
    by (simp add: GetPrimaryOfShard_def shard_primaries_assign)
  have 10: "\<forall>j. j \<noteq> k \<longrightarrow> shard_primaries (assign r k s) j = shard_primaries s j"
    by (simp add: shard_primaries_assign)
  have 11: "GetShardCount (assign r k s) = GetShardCount s
            \<and> GetPrimaryId (assign r k s) = GetPrimaryId s
            \<and> GetCurrentView (assign r k s) = GetCurrentView s"
    by (simp add: GetShardCount_def GetPrimaryId_def GetCurrentView_def assign_def)
  from a 1 2 3 4 5 6 7 8 9 10 11
  show "\<exists>s' k. AddReplica r s = Some s' \<and> ucast k < GetShardCount s
            \<and> (\<forall>j. ucast j < GetShardCount s \<longrightarrow> GetShardSize s k \<le> GetShardSize s j)
            \<and> (\<forall>j. j < k \<longrightarrow> GetShardSize s k < GetShardSize s j)
            \<and> GetReplicas s' = GetReplicas s @ [r]
            \<and> GetShardOfNode s' (replica_id r) = k
            \<and> GetNodesInShard s' k = GetNodesInShard s k @ [replica_id r]
            \<and> (\<forall>j. j \<noteq> k \<longrightarrow> GetNodesInShard s' j = GetNodesInShard s j)
            \<and> (\<forall>n. n \<noteq> replica_id r \<longrightarrow> GetShardOfNode s' n = GetShardOfNode s n)
            \<and> GetPrimaryOfShard s' k
                = (if shard_primaries s k = None then replica_id r else GetPrimaryOfShard s k)
            \<and> (\<forall>j. j \<noteq> k \<longrightarrow> shard_primaries s' j = shard_primaries s j)
            \<and> GetShardCount s' = GetShardCount s
            \<and> GetPrimaryId s' = GetPrimaryId s \<and> GetCurrentView s' = GetCurrentView s"
    by blast
qed

text \<open>
  Shards 0 and 1 hold one replica each: replica 3 goes to shard 0; replica 1 is a duplicate.
\<close>

theorem AddReplica_placement_witness:
  "AddReplica (replica_n 1) (roster 2 2) = Some (roster 2 2) \<and>
   replica_id (replica_n 3) \<noteq> 0 \<and> ip (replica_n 3) \<noteq> [] \<and> port (replica_n 3) \<noteq> 0 \<and>
   replica_id (replica_n 3) \<notin> replica_id ` set (GetReplicas (roster 2 2)) \<and>
   GetShardCount (roster 2 2) = 2 \<and>
   GetShardSize (roster 2 2) 0 = 1 \<and> GetShardSize (roster 2 2) 1 = 1 \<and>
   (\<exists>s' k. AddReplica (replica_n 3) (roster 2 2) = Some s' \<and> ucast k < GetShardCount (roster 2 2)
        \<and> (\<forall>j. j < k \<longrightarrow> GetShardSize (roster 2 2) k < GetShardSize (roster 2 2) j)
        \<and> GetShardOfNode s' 3 = k
        \<and> GetNodesInShard s' k = GetNodesInShard (roster 2 2) k @ [3]) \<and>
   AddReplica (replica_n 3) (roster 2 2) = Some (roster 2 3) \<and>
   GetShardOfNode (roster 2 3) 3 = 0 \<and>
   AddReplica (replica_n 3) (roster 2 3) = Some (roster 2 3)"
proof -
  note inst = AddReplica_placement [of "replica_n 3" "roster 2 2"]
  have dup: "replica_id (replica_n 1) \<in> replica_id ` set (GetReplicas (roster 2 2))"
    by (simp add: roster_def GetReplicas_def eval_simps upt_conv_Cons)
  have a: "AddReplica (replica_n 1) (roster 2 2) = Some (roster 2 2)"
    using AddReplica_placement [of "replica_n 1" "roster 2 2", THEN conjunct1] dup by blast
  have wf: "replica_id (replica_n 3) \<noteq> 0 \<and> ip (replica_n 3) \<noteq> [] \<and> port (replica_n 3) \<noteq> 0"
    by (simp add: replica_n_def)
  have new: "replica_id (replica_n 3) \<notin> replica_id ` set (GetReplicas (roster 2 2))"
    by (simp add: roster_def GetReplicas_def eval_simps upt_conv_Cons)
  have cnt: "GetShardCount (roster 2 2) = 2"
    by (simp add: roster_def GetShardCount_def eval_simps upt_conv_Cons)
  have s0: "GetShardSize (roster 2 2) 0 = 1" by (simp add: roster_def eval_simps upt_conv_Cons)
  have s1: "GetShardSize (roster 2 2) 1 = 1" by (simp add: roster_def eval_simps upt_conv_Cons)
  have sz: "\<forall>j. ucast j < GetShardCount (roster 2 2) \<longrightarrow> GetShardSize (roster 2 2) j < SIZE_MAX"
    by (simp add: roster_def eval_simps upt_conv_Cons)
  have b: "\<exists>s' k. AddReplica (replica_n 3) (roster 2 2) = Some s' \<and> ucast k < GetShardCount (roster 2 2)
        \<and> (\<forall>j. j < k \<longrightarrow> GetShardSize (roster 2 2) k < GetShardSize (roster 2 2) j)
        \<and> GetShardOfNode s' 3 = k
        \<and> GetNodesInShard s' k = GetNodesInShard (roster 2 2) k @ [3]"
  proof -
    from inst [THEN conjunct2, THEN conjunct1] wf new cnt sz
    obtain s' k where "AddReplica (replica_n 3) (roster 2 2) = Some s'"
      "ucast k < GetShardCount (roster 2 2)"
      "\<forall>j. j < k \<longrightarrow> GetShardSize (roster 2 2) k < GetShardSize (roster 2 2) j"
      "GetShardOfNode s' (replica_id (replica_n 3)) = k"
      "GetNodesInShard s' k = GetNodesInShard (roster 2 2) k @ [replica_id (replica_n 3)]"
      by auto
    then show ?thesis by (auto simp: replica_n_def)
  qed
  have c: "AddReplica (replica_n 3) (roster 2 2) = Some (roster 2 3)"
    by (simp add: roster_def eval_simps upt_conv_Cons)
  have d: "GetShardOfNode (roster 2 3) 3 = 0" by (simp add: roster_def eval_simps upt_conv_Cons)
  from inst [THEN conjunct2, THEN conjunct2] c
  have e: "AddReplica (replica_n 3) (roster 2 3) = Some (roster 2 3)" by blast
  from a wf new cnt s0 s1 b c d e show ?thesis by blast
qed

text \<open>
  C4 as stated fails: with a shard count of 0 a well-formed, new replica is not appended.
\<close>

theorem AddReplica_appends_counterexample:
  "replica_id (replica_n 1) \<noteq> 0 \<and> ip (replica_n 1) \<noteq> [] \<and> port (replica_n 1) \<noteq> 0 \<and>
   replica_id (replica_n 1) \<notin> replica_id ` set (GetReplicas (fresh_info 0)) \<and>
   AddReplica (replica_n 1) (fresh_info 0) = Some (fresh_info 0) \<and>
   GetReplicas (fresh_info 0) = [] \<and>
   GetShardOfNode (fresh_info 0) 1 = UINT32_MAX"
  by (simp add: eval_simps GetReplicas_def)

section \<open>Properties of the replication entry points\<close>

subsection \<open>Evaluation on the examples\<close>

lemmas scen = scripted_def manager_of_def accept_all_def replica_at_def
  no_duplicates_def signed_context_def request_from_def
  from_outside_at_subnode_def has_signature_def

lemmas entry_simps = ProcessProposeMsg_def ProcessProposeMsg_add_def ProcessPrepareMsg_def
  ProcessCommitMsg_def send_to_own_shard_def at_index_def for_int.simps INT_MAX_def
  commit_request_of_def sign_commit_def CheckAndAddProposed_def CheckIfExecuted_def
  empty_SignatureInfo_def

lemma roster_2_4:
  "GetNodesInShard (roster 2 4) 0 = [1, 3]" "GetNodesInShard (roster 2 4) 1 = [2, 4]"
  "GetPrimaryOfShard (roster 2 4) 0 = 1" "GetPrimaryOfShard (roster 2 4) 1 = 2"
  "GetShardOfNode (roster 2 4) 1 = 0" "GetShardOfNode (roster 2 4) 2 = 1"
  "GetShardOfNode (roster 2 4) 3 = 0" "GetShardOfNode (roster 2 4) 4 = 1"
  "map replica_id (GetReplicas (roster 2 4)) = [1, 2, 3, 4]"
  "GetPrimaryId (roster 2 4) = 1" "GetShardCount (roster 2 4) = 2"
  "GetShardSize (roster 2 4) 0 = 2" "GetShardSize (roster 2 4) 1 = 2"
  by (simp_all add: roster_def eval_simps GetReplicas_def GetPrimaryId_def GetShardCount_def
      upt_conv_Cons)

lemma roster_1_4:
  "GetNodesInShard (roster 1 4) 0 = [1, 2, 3, 4]"
  "GetPrimaryOfShard (roster 1 4) 0 = 1"
  "GetShardOfNode (roster 1 4) 1 = 0" "GetShardOfNode (roster 1 4) 2 = 0"
  "GetShardOfNode (roster 1 4) 3 = 0" "GetShardOfNode (roster 1 4) 4 = 0"
  "map replica_id (GetReplicas (roster 1 4)) = [1, 2, 3, 4]"
  "GetPrimaryId (roster 1 4) = 1" "GetShardCount (roster 1 4) = 1"
  "GetShardSize (roster 1 4) 0 = 4"
  by (simp_all add: roster_def eval_simps GetReplicas_def GetPrimaryId_def GetShardCount_def
      upt_conv_Cons)

subsection \<open>The loop over the members of the own shard\<close>

text \<open>
  With the shard size as bound, as in \<open>ProcessPrepareMsg\<close> and \<open>ProcessCommitMsg\<close>,
  the loop sends the message once to every member, in order.
\<close>

lemma for_int_each:
  assumes "n \<le> INT_MAX" and "i \<le> n" and "k = n - i"
    and "\<And>j. j < n \<Longrightarrow> body j = Inr [f j]"
  shows "for_int i n body = Inr (map f [i..<n])"
  using assms(2,3)
proof (induction k arbitrary: i)
  case 0
  then show ?case by (simp add: for_int.simps)
next
  case (Suc k)
  then have lt: "i < n" by simp
  then have ne: "i \<noteq> INT_MAX" using assms(1) by simp
  have rest: "for_int (i + 1) n body = Inr (map f [i + 1..<n])"
    using Suc.IH [of "i + 1"] Suc.prems lt by simp
  show ?case
    using lt ne rest assms(4) [OF lt]
    by (subst for_int.simps) (simp add: upt_conv_Cons)
qed

lemma send_to_own_shard_size:
  assumes "mm_GetShardSize M mm (mm_GetShardOfNode M mm self)
             = length (mm_GetNodesInShard M mm (mm_GetShardOfNode M mm self))"
    and "length (mm_GetNodesInShard M mm (mm_GetShardOfNode M mm self)) \<le> INT_MAX"
  shows "send_to_own_shard M mm self (mm_GetShardSize M mm (mm_GetShardOfNode M mm self)) False msg
           = Inr (map (SendMessage msg) (mm_GetNodesInShard M mm (mm_GetShardOfNode M mm self)))"
proof -
  let ?nodes = "mm_GetNodesInShard M mm (mm_GetShardOfNode M mm self)"
  have "for_int 0 (length ?nodes)
          (\<lambda>i. case at_index ?nodes i of Inl e \<Rightarrow> Inl e
                | Inr node \<Rightarrow> if False \<and> node = self then Inr [] else Inr [SendMessage msg node])
        = Inr (map (\<lambda>j. SendMessage msg (?nodes ! j)) [0..<length ?nodes])"
    by (rule for_int_each [OF assms(2)]) (simp_all add: at_index_def)
  also have "map (\<lambda>j. SendMessage msg (?nodes ! j)) [0..<length ?nodes] = map (SendMessage msg) ?nodes"
    by (rule nth_equalityI) simp_all
  finally show ?thesis by (simp add: send_to_own_shard_def assms(1))
qed

subsection \<open>Claims about the entry points\<close>

text \<open>
  C2 (ingress routing). When the sender is not in the receiver's shard and the receiver is
  not the coordinator of its own shard, each of \<open>ProcessProposeMsg\<close>,
  \<open>ProcessPrepareMsg\<close> and \<open>ProcessCommitMsg\<close> hands the request, unchanged, to the
  transport for the coordinator of the receiver's shard, returns \<open>-3\<close> and leaves the
  whole state (message manager, duplicate manager, queue, statistics) as it was. The test
  comes before the signature check, so it holds for any context.
\<close>

theorem ingress_routing:
  assumes "\<not> mm_NodesInSameShard M (message_manager c) (sender_id request) (self_id c)"
    and "self_id c \<noteq> mm_GetPrimaryOfNode M (message_manager c) (self_id c)"
  shows "ProcessProposeMsg M c context request =
           Inr (- 3, c, [SendMessage request
              (mm_GetPrimaryOfShard M (message_manager c)
                 (mm_GetShardOfNode M (message_manager c) (self_id c)))])
       \<and> ProcessPrepareMsg M c context request =
           Inr (- 3, c, [SendMessage request
              (mm_GetPrimaryOfShard M (message_manager c)
                 (mm_GetShardOfNode M (message_manager c) (self_id c)))])
       \<and> ProcessCommitMsg M c context request =
           Inr (- 3, c, [SendMessage request
              (mm_GetPrimaryOfShard M (message_manager c)
                 (mm_GetShardOfNode M (message_manager c) (self_id c)))])"
proof -
  have "from_outside_at_subnode M c request"
    using assms by (simp add: from_outside_at_subnode_def)
  then show ?thesis
    by (simp add: ProcessProposeMsg_def ProcessPrepareMsg_def ProcessCommitMsg_def)
qed

text \<open>
  Replica 4 receives messages of replica 1, which sits in the other shard, and forwards
  them to its coordinator, replica 2.
\<close>

theorem ingress_routing_witness:
  "\<not> mm_NodesInSameShard scripted (message_manager subnode_4) 1 (self_id subnode_4) \<and>
   self_id subnode_4 \<noteq> mm_GetPrimaryOfNode scripted (message_manager subnode_4) (self_id subnode_4) \<and>
   ProcessProposeMsg scripted subnode_4 None (request_from 1 TYPE_PRE_PREPARE)
     = Inr (- 3, subnode_4, [SendMessage (request_from 1 TYPE_PRE_PREPARE) 2]) \<and>
   ProcessPrepareMsg scripted subnode_4 (Some signed_context) (request_from 1 TYPE_PREPARE)
     = Inr (- 3, subnode_4, [SendMessage (request_from 1 TYPE_PREPARE) 2]) \<and>
   ProcessCommitMsg scripted subnode_4 (Some signed_context) (request_from 1 TYPE_COMMIT)
     = Inr (- 3, subnode_4, [SendMessage (request_from 1 TYPE_COMMIT) 2])"
proof -
  have a: "\<And>t. \<not> mm_NodesInSameShard scripted (message_manager subnode_4)
              (sender_id (request_from 1 t)) (self_id subnode_4)"
    by (simp add: subnode_4_def scen roster_2_4)
  have b: "self_id subnode_4 \<noteq> mm_GetPrimaryOfNode scripted (message_manager subnode_4) (self_id subnode_4)"
    by (simp add: subnode_4_def scen roster_2_4)
  have c: "mm_GetPrimaryOfShard scripted (message_manager subnode_4)
             (mm_GetShardOfNode scripted (message_manager subnode_4) (self_id subnode_4)) = 2"
    by (simp add: subnode_4_def scen roster_2_4)
  have s: "\<And>t. sender_id (request_from 1 t) = 1" by (simp add: request_from_def)
  from ingress_routing [OF a [of TYPE_PRE_PREPARE] b, of None]
    ingress_routing [OF a [of TYPE_PREPARE] b, of "Some signed_context"]
    ingress_routing [OF a [of TYPE_COMMIT] b, of "Some signed_context"]
    a [of TYPE_PRE_PREPARE] b
  show ?thesis by (simp add: c s)
qed

text \<open>
  C1 (replay of an executed request). \<open>ProcessNewRequest\<close> first rejects a request
  without a signature; the duplicate check is its next step. The duplicate manager reports
  an execution as a non-zero sequence number (zero is its answer for a hash that was never
  executed). For every signed request whose hash it reports as executed with sequence number
  \<open>s\<close>, \<open>ProcessNewRequest\<close> sets the request's sequence number to \<open>s\<close>, sends
  it back as the response to the proxy with \<^verbatim>\<open>message_manager_->SendResponse\<close>, and
  returns the negative code \<open>-2\<close>. That call is the only change of the state: no
  sequence number is assigned, no consensus message is added, the duplicate manager is
  untouched and nothing is forwarded or broadcast.
\<close>

theorem executed_request_replayed:
  assumes "has_signature context"
    and "CheckIfExecuted (duplicate_manager c) (hash user_request) = s"
    and "s \<noteq> 0"
  shows "ProcessNewRequest M c context user_request =
           Inr (- 2,
                c\<lparr>message_manager :=
                     mm_SendResponse M (message_manager c) (user_request\<lparr>seq := s\<rparr>)\<rparr>,
                [])"
  using assms
  by (auto simp: ProcessNewRequest_def has_signature_def split: option.splits)

text \<open>
  Scenario S2: hash \<open>H\<close> was executed with sequence number 5 and is sent again, signed,
  to replica 3 in a request that carries sequence number 1. The response carries 5; the
  sequence counter and the slots of the message manager are as before.
\<close>

theorem executed_request_replayed_witness:
  "has_signature (Some signed_context) \<and>
   CheckIfExecuted (duplicate_manager executed_H) (hash (request_from 9 TYPE_NEW_REQUEST)) = 5 \<and>
   seq (request_from 9 TYPE_NEW_REQUEST) = 1 \<and>
   ProcessNewRequest scripted executed_H (Some signed_context) (request_from 9 TYPE_NEW_REQUEST) =
     Inr (- 2,
          executed_H\<lparr>message_manager :=
            (message_manager executed_H)\<lparr>sm_responses := [(request_from 9 TYPE_NEW_REQUEST)\<lparr>seq := 5\<rparr>]\<rparr>\<rparr>,
          []) \<and>
   sm_slots (message_manager executed_H) = [] \<and>
   sm_next_seq (message_manager executed_H) = 1 \<and>
   sm_responses (message_manager executed_H) = []"
proof -
  let ?rq = "request_from 9 TYPE_NEW_REQUEST"
  have a: "has_signature (Some signed_context)" by (simp add: scen)
  have b: "CheckIfExecuted (duplicate_manager executed_H) (hash ?rq) = 5"
    by (simp add: executed_H_def scen CheckIfExecuted_def MarkExecuted_def)
  have n: "(5 :: 64 word) \<noteq> 0" by simp
  have c: "mm_SendResponse scripted (message_manager executed_H) rq
             = (message_manager executed_H)\<lparr>sm_responses := [rq]\<rparr>" for rq
    by (simp add: executed_H_def scen)
  have d: "seq ?rq = 1" by (simp add: scen)
  have e: "sm_slots (message_manager executed_H) = []" "sm_next_seq (message_manager executed_H) = 1"
    "sm_responses (message_manager executed_H) = []"
    by (simp_all add: executed_H_def scen)
  from executed_request_replayed [OF a b n, of scripted] a b d e
  show ?thesis by (simp add: c)
qed

text \<open>
  C6 (backpressure). When \<open>ProcessNewRequest\<close> reaches the sequence assignment (signed,
  not executed, at the coordinator, verified, not a duplicate) and \<^verbatim>\<open>AssignNextSeq\<close>
  fails, it returns \<open>-2\<close>, the duplicate manager is as before the call, so the hash is
  not marked proposed, and exactly one message goes to the transport: a
  \<open>TYPE_RESPONSE\<close> with \<open>ret = -2\<close>, the request's hash and proxy id, addressed to
  the request's proxy id.
\<close>

theorem backpressure_rollback:
  assumes "has_signature context"
    and "CheckIfExecuted (duplicate_manager c) (hash user_request) = 0"
    and "self_id c = mm_GetPrimaryOfNode M (message_manager c) (self_id c)"
    and "verifier c = Some v"
    and "VerifyMessage v (data user_request) (data_signature user_request)"
    and "pre_verify_func c = None \<or> (\<exists>f. pre_verify_func c = Some f \<and> f user_request)"
    and "fst (CheckAndAddProposed (duplicate_manager c) (hash user_request)) = False"
    and "fst (mm_AssignNextSeq M (message_manager c)) = None"
  shows "\<exists>c' response.
           ProcessNewRequest M c context user_request =
             Inr (- 2, c', [SendMessage response (proxy_id user_request)])
         \<and> duplicate_manager c' = duplicate_manager c
         \<and> hash user_request \<notin> proposed (duplicate_manager c')
         \<and> message_manager c' = snd (mm_AssignNextSeq M (message_manager c))
         \<and> type response = TYPE_RESPONSE \<and> ret response = - 2
         \<and> hash response = hash user_request \<and> proxy_id response = proxy_id user_request
         \<and> sender_id response = self_id c"
proof -
  from assms(1) obtain ctx where ctx: "context = Some ctx" "signature (ctx_signature ctx) \<noteq> []"
    by (auto simp: has_signature_def split: option.splits)
  from assms(7) have fresh: "hash user_request \<notin> proposed (duplicate_manager c)"
    and g: "CheckAndAddProposed (duplicate_manager c) (hash user_request)
          = (False, (duplicate_manager c)\<lparr>proposed := insert (hash user_request) (proposed (duplicate_manager c))\<rparr>)"
    by (auto simp: CheckAndAddProposed_def split: if_splits)
  from assms(8) obtain mm' where mm': "mm_AssignNextSeq M (message_manager c) = (None, mm')"
    by (cases "mm_AssignNextSeq M (message_manager c)") auto
  have pv: "\<not> (case pre_verify_func c of Some f \<Rightarrow> \<not> f user_request | None \<Rightarrow> False)"
    using assms(6) by auto
  have er: "EraseProposed ((duplicate_manager c)\<lparr>proposed := insert (hash user_request) (proposed (duplicate_manager c))\<rparr>) (hash user_request)
              = duplicate_manager c"
    using fresh by (simp add: EraseProposed_def)
  have "ProcessNewRequest M c context user_request =
      Inr (- 2,
           c\<lparr>message_manager := mm',
             duplicate_manager := duplicate_manager c,
             global_stats := global_stats c @ [IncClientRequest, SeqFail]\<rparr>,
           [SendMessage
              (default_Request\<lparr>type := TYPE_RESPONSE, sender_id := self_id c,
                 proxy_id := proxy_id user_request, ret := - 2,
                 hash := hash user_request\<rparr>)
              (proxy_id user_request)])"
    using ctx assms(2,3,4,5) pv
    by (simp add: ProcessNewRequest_def g mm' er)
  then show ?thesis using fresh mm' by simp
qed

text \<open>
  Scenario S5: the counter of coordinator 1 is beyond the cap.
\<close>

theorem backpressure_rollback_witness:
  "has_signature (Some signed_context) \<and>
   CheckIfExecuted (duplicate_manager saturated_1) (hash (request_from 9 TYPE_NEW_REQUEST)) = 0 \<and>
   self_id saturated_1 = mm_GetPrimaryOfNode scripted (message_manager saturated_1) (self_id saturated_1) \<and>
   fst (CheckAndAddProposed (duplicate_manager saturated_1) (hash (request_from 9 TYPE_NEW_REQUEST))) = False \<and>
   fst (mm_AssignNextSeq scripted (message_manager saturated_1)) = None \<and>
   (\<exists>c' response.
      ProcessNewRequest scripted saturated_1 (Some signed_context) (request_from 9 TYPE_NEW_REQUEST) =
        Inr (- 2, c', [SendMessage response 9])
      \<and> duplicate_manager c' = no_duplicates
      \<and> type response = TYPE_RESPONSE \<and> ret response = - 2 \<and> hash response = ''H'')"
proof -
  let ?rq = "request_from 9 TYPE_NEW_REQUEST"
  have a: "has_signature (Some signed_context)" by (simp add: scen)
  have b: "CheckIfExecuted (duplicate_manager saturated_1) (hash ?rq) = 0"
    by (simp add: saturated_1_def scen CheckIfExecuted_def)
  have c: "self_id saturated_1
             = mm_GetPrimaryOfNode scripted (message_manager saturated_1) (self_id saturated_1)"
    by (simp add: saturated_1_def scen roster_1_4)
  have d: "verifier saturated_1 = Some accept_all" by (simp add: saturated_1_def scen)
  have e: "VerifyMessage accept_all (data ?rq) (data_signature ?rq)" by (simp add: scen)
  have f: "pre_verify_func saturated_1 = None \<or> (\<exists>f. pre_verify_func saturated_1 = Some f \<and> f ?rq)"
    by (simp add: saturated_1_def scen)
  have g: "fst (CheckAndAddProposed (duplicate_manager saturated_1) (hash ?rq)) = False"
    by (simp add: saturated_1_def scen CheckAndAddProposed_def)
  have h: "fst (mm_AssignNextSeq scripted (message_manager saturated_1)) = None"
    by (simp add: saturated_1_def scen)
  have i: "duplicate_manager saturated_1 = no_duplicates" "proxy_id ?rq = 9" "hash ?rq = ''H''"
    by (simp_all add: saturated_1_def scen)
  from backpressure_rollback [OF a b c d e f g h] i
  have "\<exists>c' response.
      ProcessNewRequest scripted saturated_1 (Some signed_context) ?rq =
        Inr (- 2, c', [SendMessage response 9])
      \<and> duplicate_manager c' = no_duplicates
      \<and> type response = TYPE_RESPONSE \<and> ret response = - 2 \<and> hash response = ''H''"
    by auto
  with a b c g h show ?thesis by blast
qed




text \<open>
  C8: the code at a failing input. Replica 2 of a single shard \<open>{1, 2, 3, 4}\<close> receives
  the inner PRE_PREPARE of its coordinator; \<^verbatim>\<open>AddConsensusMsg\<close> reports
  \<open>STATE_CHANGED\<close> and the phase is not \<open>READY_PREPARE\<close>. The loop bound is
  \<^verbatim>\<open>GetShardOfNode(GetShardSize(GetShardOfNode(self)))\<close>: the shard has 4 members, node
  4 is in shard 0, so the bound is 0 and no PREPARE is sent.
\<close>

theorem inner_prepare_failing_input:
  "mm_GetNodesInShard scripted (message_manager member_2)
     (mm_GetShardOfNode scripted (message_manager member_2) (self_id member_2)) = [1, 2, 3, 4] \<and>
   mm_GetShardSize scripted (message_manager member_2)
     (mm_GetShardOfNode scripted (message_manager member_2) (self_id member_2)) = 4 \<and>
   mm_GetShardOfNode scripted (message_manager member_2) 4 = 0 \<and>
   (case ProcessProposeMsg scripted member_2 (Some signed_context) (request_from 1 TYPE_PRE_PREPARE) of
      Inr (r, c', sent) \<Rightarrow>
        r = 0 \<and> sent = [] \<and> sm_slots (message_manager c') = [request_from 1 TYPE_PRE_PREPARE]
        \<and> mm_GetTransactionState scripted (message_manager c') 1 \<noteq> READY_PREPARE
    | Inl e \<Rightarrow> False)"
  by (simp add: member_2_def scen entry_simps roster_1_4)

end
